theory Spec2Isabelle
  imports Complex_Main
begin

section \<open>Values of the JavaScript runtime\<close>

text \<open>
  The tool arguments and the marketplace responses are decoded JSON, so a defined value
  is one of the six JSON kinds. A property that is missing reads as \<open>undefined\<close>,
  which is \<open>None\<close> of \<open>json option\<close>. A number is kept as the rational it denotes:
  the handlers never calculate with a number, they only test it and pass it on.
  An object lists its properties in the order JavaScript enumerates them. A string is a
  list of 8-bit characters; the handlers only compare strings with the empty string, join
  them and pass them on.
\<close>

datatype json =
    JNull
  | JBool bool
  | JNum rat
  | JStr string
  | JArr "json list"
  | JObj "(string \<times> json) list"

text \<open>An object literal built by a handler: a property may hold \<open>undefined\<close>.\<close>

type_synonym jsobj = "(string \<times> json option) list"

text \<open>The argument bag \<open>args: any\<close> of a handler, once it is an object.\<close>

type_synonym argbag = "string \<Rightarrow> json option"

text \<open>
  What lies outside the repository: how the runtime prints a number
  (\<open>Number::toString\<close>) is a parameter of everything that prints.
\<close>

type_synonym numfmt = "rat \<Rightarrow> string"

subsection \<open>Responses and errors\<close>

text \<open>
  Of a response the handlers read \<open>data\<close>, the decoded body, and the \<open>catch\<close> block
  reads \<open>status\<close> too. The client always delivers a defined \<open>data\<close>: the parsed JSON,
  or the body as a string, which is the empty string when there is no body.
\<close>

record AxiosResponse =
  data :: json
  status :: int

text \<open>
  What a \<open>throw\<close> carries: a plain \<open>Error\<close>, a \<open>TypeError\<close> of the runtime,
  or the error of the HTTP client, which has a message and, when the marketplace
  answered, the response.
\<close>

datatype js_error =
    Error string
  | TypeError string
  | AxiosError string "AxiosResponse option"

subsection \<open>Truthiness and the operator \<open>||\<close>\<close>

fun truthy_json :: "json \<Rightarrow> bool" where
  "truthy_json JNull = False"
| "truthy_json (JBool b) = b"
| "truthy_json (JNum q) = (q \<noteq> 0)"
| "truthy_json (JStr s) = (s \<noteq> [])"
| "truthy_json (JArr xs) = True"
| "truthy_json (JObj kvs) = True"

fun truthy :: "json option \<Rightarrow> bool" where
  "truthy None = False"
| "truthy (Some v) = truthy_json v"

definition js_or :: "json option \<Rightarrow> json option \<Rightarrow> json option" where
  "js_or a b = (if truthy a then a else b)"

fun truthy_str :: "string option \<Rightarrow> bool" where
  "truthy_str None = False"
| "truthy_str (Some s) = (s \<noteq> [])"

definition str_or :: "string option \<Rightarrow> string option \<Rightarrow> string option" where
  "str_or a b = (if truthy_str a then a else b)"

subsection \<open>Assignment to a property\<close>

fun assign :: "jsobj \<Rightarrow> string \<Rightarrow> json option \<Rightarrow> jsobj" where
  "assign [] k v = [(k, v)]"
| "assign ((k', v') # ps) k v =
     (if k' = k then (k, v) # ps else (k', v') # assign ps k v)"

text \<open>\<open>if (c) obj.k = v;\<close>\<close>

definition assign_if :: "bool \<Rightarrow> jsobj \<Rightarrow> string \<Rightarrow> json option \<Rightarrow> jsobj" where
  "assign_if c obj k v = (if c then assign obj k v else obj)"

subsection \<open>Conversion to a string: template literals and \<open>Array.prototype.join\<close>\<close>

fun intercalate :: "string \<Rightarrow> string list \<Rightarrow> string" where
  "intercalate sep [] = []"
| "intercalate sep [x] = x"
| "intercalate sep (x # y # ys) = x @ sep @ intercalate sep (y # ys)"

text \<open>
  Converting an object calls its \<open>toString\<close>. An object decoded from JSON inherits the
  callable one, which yields \<open>[object Object]\<close>, unless it has a member of its own named
  \<open>toString\<close>: that member is no function, the inherited \<open>valueOf\<close> returns the object
  itself, and the conversion throws a \<open>TypeError\<close>. An array is converted by joining its
  elements with a comma; null counts as the empty string there.
\<close>

definition conversion_error :: js_error where
  "conversion_error = TypeError ''Cannot convert object to primitive value''"

fun ToString :: "numfmt \<Rightarrow> json \<Rightarrow> js_error + string"
  and join_items :: "numfmt \<Rightarrow> json list \<Rightarrow> js_error + string list" where
  "ToString ns JNull = Inr ''null''"
| "ToString ns (JBool b) = Inr (if b then ''true'' else ''false'')"
| "ToString ns (JNum q) = Inr (ns q)"
| "ToString ns (JStr s) = Inr s"
| "ToString ns (JArr xs) =
     (case join_items ns xs of Inl e \<Rightarrow> Inl e | Inr ss \<Rightarrow> Inr (intercalate '','' ss))"
| "ToString ns (JObj kvs) =
     (if ''toString'' \<in> fst ` set kvs
      then Inl conversion_error
      else Inr ''[object Object]'')"
| "join_items ns [] = Inr []"
| "join_items ns (x # xs) =
     (case (case x of JNull \<Rightarrow> Inr [] | _ \<Rightarrow> ToString ns x) of
        Inl e \<Rightarrow> Inl e
      | Inr s \<Rightarrow> (case join_items ns xs of Inl e \<Rightarrow> Inl e | Inr ss \<Rightarrow> Inr (s # ss)))"

text \<open>\<open>xs.join(sep)\<close> on an array.\<close>

definition join :: "numfmt \<Rightarrow> json list \<Rightarrow> string \<Rightarrow> js_error + string" where
  "join ns xs sep =
     (case join_items ns xs of Inl e \<Rightarrow> Inl e | Inr ss \<Rightarrow> Inr (intercalate sep ss))"

text \<open>\<open>${v}\<close> inside a template literal.\<close>

fun interp :: "numfmt \<Rightarrow> json option \<Rightarrow> js_error + string" where
  "interp ns None = Inr ''undefined''"
| "interp ns (Some v) = ToString ns v"

text \<open>
  A template literal: its fixed parts and its substitutions, evaluated from left to right;
  the first substitution that throws ends the evaluation.
\<close>

datatype part = Lit string | Sub "json option"

fun template :: "numfmt \<Rightarrow> part list \<Rightarrow> js_error + string" where
  "template ns [] = Inr []"
| "template ns (Lit s # ps) =
     (case template ns ps of Inl e \<Rightarrow> Inl e | Inr t \<Rightarrow> Inr (s @ t))"
| "template ns (Sub v # ps) =
     (case interp ns v of
        Inl e \<Rightarrow> Inl e
      | Inr s \<Rightarrow> (case template ns ps of Inl e \<Rightarrow> Inl e | Inr t \<Rightarrow> Inr (s @ t)))"

subsection \<open>\<open>JSON.stringify(value, null, 2)\<close>\<close>

definition hex_digit :: "nat \<Rightarrow> char" where
  "hex_digit n = ''0123456789abcdef'' ! (n mod 16)"

definition quote_char :: "char \<Rightarrow> string" where
  "quote_char c =
     (if c = CHR 0x22 then [CHR 0x5C, CHR 0x22]
      else if c = CHR 0x5C then [CHR 0x5C, CHR 0x5C]
      else if c = CHR 0x08 then [CHR 0x5C, CHR ''b'']
      else if c = CHR 0x09 then [CHR 0x5C, CHR ''t'']
      else if c = CHR 0x0A then [CHR 0x5C, CHR ''n'']
      else if c = CHR 0x0C then [CHR 0x5C, CHR ''f'']
      else if c = CHR 0x0D then [CHR 0x5C, CHR ''r'']
      else if (of_char c :: nat) < 32
        then [CHR 0x5C, CHR ''u'', CHR ''0'', CHR ''0'',
              hex_digit (of_char c div 16), hex_digit (of_char c)]
      else [c])"

definition QuoteJSONString :: "string \<Rightarrow> string" where
  "QuoteJSONString s = [CHR 0x22] @ concat (map quote_char s) @ [CHR 0x22]"

text \<open>
  The serialisation with the gap of two spaces; \<open>ind\<close> is the indentation of the
  enclosing level. An empty array or object is printed without a line break.
\<close>

definition bracket :: "string \<Rightarrow> string \<Rightarrow> string \<Rightarrow> string list \<Rightarrow> string" where
  "bracket l r ind parts =
     (if parts = [] then l @ r
      else l @ [CHR 0x0A] @ (ind @ ''  '')
           @ intercalate ('','' @ [CHR 0x0A] @ (ind @ ''  '')) parts
           @ [CHR 0x0A] @ ind @ r)"

fun SerializeJSONProperty :: "numfmt \<Rightarrow> string \<Rightarrow> json \<Rightarrow> string"
  and SerializeJSONArray :: "numfmt \<Rightarrow> string \<Rightarrow> json list \<Rightarrow> string list"
  and SerializeJSONObject :: "numfmt \<Rightarrow> string \<Rightarrow> (string \<times> json) list \<Rightarrow> string list" where
  "SerializeJSONProperty ns ind JNull = ''null''"
| "SerializeJSONProperty ns ind (JBool b) = (if b then ''true'' else ''false'')"
| "SerializeJSONProperty ns ind (JNum q) = ns q"
| "SerializeJSONProperty ns ind (JStr s) = QuoteJSONString s"
| "SerializeJSONProperty ns ind (JArr xs) =
     bracket ''['' '']'' ind (SerializeJSONArray ns (ind @ ''  '') xs)"
| "SerializeJSONProperty ns ind (JObj kvs) =
     bracket ''{'' ''}'' ind (SerializeJSONObject ns (ind @ ''  '') kvs)"
| "SerializeJSONArray ns ind [] = []"
| "SerializeJSONArray ns ind (x # xs) =
     SerializeJSONProperty ns ind x # SerializeJSONArray ns ind xs"
| "SerializeJSONObject ns ind [] = []"
| "SerializeJSONObject ns ind ((k, v) # kvs) =
     (QuoteJSONString k @ '': '' @ SerializeJSONProperty ns ind v)
       # SerializeJSONObject ns ind kvs"

definition stringify :: "numfmt \<Rightarrow> json \<Rightarrow> string" where
  "stringify ns v = SerializeJSONProperty ns [] v"

text \<open>
  An object literal handed to \<open>JSON.stringify\<close>: a property holding \<open>undefined\<close>
  is left out of the serialisation.
\<close>

fun defined_props :: "jsobj \<Rightarrow> (string \<times> json) list" where
  "defined_props [] = []"
| "defined_props ((k, None) # ps) = defined_props ps"
| "defined_props ((k, Some v) # ps) = (k, v) # defined_props ps"

definition stringify_literal :: "numfmt \<Rightarrow> jsobj \<Rightarrow> string" where
  "stringify_literal ns obj = stringify ns (JObj (defined_props obj))"

section \<open>HTTP requests and results\<close>

fun isAxiosError :: "js_error \<Rightarrow> bool" where
  "isAxiosError (AxiosError m r) = True"
| "isAxiosError (Error m) = False"
| "isAxiosError (TypeError m) = False"

datatype 'a completion = Return 'a | Throw js_error

datatype verb = GET | POST | PATCH | PUT | DELETE

record http_request =
  http_method :: verb
  baseURL :: string
  url :: string
  headers :: "(string \<times> string) list"
  params :: "jsobj option"
  body :: "jsobj option"

text \<open>
  The platform a server runs on: the number printer and the HTTP stack behind the
  client, which answers a request with a response or rejects it.
\<close>

record platform =
  number_to_string :: numfmt
  transport :: "http_request \<Rightarrow> AxiosResponse completion"

record content_item =
  type_field :: string
  text_field :: string

record CallToolResult =
  content :: "content_item list"

text \<open>What a call leaves behind: how it completed and the HTTP requests it made, in order.\<close>

type_synonym 'a effect = "'a completion \<times> http_request list"

section \<open>The server\<close>

definition ETSY_API_BASE_URL :: string where
  "ETSY_API_BASE_URL = ''https://openapi.etsy.com/v3''"

record EtsyConfig =
  apiKey :: string
  shopId :: "string option"
  accessToken :: "string option"

record AxiosInstance =
  instance_baseURL :: string
  instance_headers :: "(string \<times> string) list"

record EtsyMCPServer =
  config :: EtsyConfig
  axiosInstance :: AxiosInstance

text \<open>The constructor of \<open>EtsyMCPServer\<close>.\<close>

definition new_EtsyMCPServer :: "EtsyConfig \<Rightarrow> EtsyMCPServer" where
  "new_EtsyMCPServer c =
     \<lparr>config = c,
      axiosInstance =
        \<lparr>instance_baseURL = ETSY_API_BASE_URL,
         instance_headers =
           (''x-api-key'', apiKey c)
           # (case accessToken c of
                None \<Rightarrow> []
              | Some t \<Rightarrow> if t \<noteq> [] then [(''Authorization'', ''Bearer '' @ t)] else [])\<rparr>\<rparr>"

subsection \<open>The four verbs of the client\<close>

definition axios_request ::
  "platform \<Rightarrow> AxiosInstance \<Rightarrow> verb \<Rightarrow> string \<Rightarrow> jsobj option \<Rightarrow> jsobj option
     \<Rightarrow> AxiosResponse effect" where
  "axios_request P ax m u ps b =
     (let r = \<lparr>http_method = m, baseURL = instance_baseURL ax, url = u,
               headers = instance_headers ax, params = ps, body = b\<rparr>
      in (transport P r, [r]))"

text \<open>
  A call of the client whose address is a template literal: the arguments are evaluated
  before the call, so when the template throws, nothing is sent.
\<close>

definition request_to ::
  "platform \<Rightarrow> AxiosInstance \<Rightarrow> verb \<Rightarrow> js_error + string \<Rightarrow> jsobj option \<Rightarrow> jsobj option
     \<Rightarrow> AxiosResponse effect" where
  "request_to P ax m u ps b =
     (case u of Inl e \<Rightarrow> (Throw e, []) | Inr s \<Rightarrow> axios_request P ax m s ps b)"

text \<open>\<open>const response = await ...; return { content: [...] }\<close>\<close>

definition await_then ::
  "AxiosResponse effect \<Rightarrow> (AxiosResponse \<Rightarrow> CallToolResult) \<Rightarrow> CallToolResult effect" where
  "await_then r k =
     (case fst r of
        Throw e \<Rightarrow> (Throw e, snd r)
      | Return response \<Rightarrow> (Return (k response), snd r))"

definition text_result :: "string \<Rightarrow> CallToolResult" where
  "text_result s = \<lparr>content = [\<lparr>type_field = ''text'', text_field = s\<rparr>]\<rparr>"

text \<open>Reading a property of \<open>args\<close> when \<open>args\<close> is \<open>undefined\<close>.\<close>

definition cannot_read :: "string \<Rightarrow> js_error" where
  "cannot_read k =
     TypeError (''Cannot read properties of undefined (reading '' @ [CHR 0x27] @ k @ [CHR 0x27] @ '')'')"

section \<open>The read handlers\<close>

text \<open>
  Each handler reads properties of \<open>args\<close> before it calls the client, so with
  \<open>args\<close> undefined it throws at its first read and calls nothing.
\<close>

definition searchListings :: "platform \<Rightarrow> EtsyMCPServer \<Rightarrow> argbag option \<Rightarrow> CallToolResult effect" where
  "searchListings P srv args =
     (case args of
        None \<Rightarrow> (Throw (cannot_read ''keywords''), [])
      | Some a \<Rightarrow>
          (let params0 = [(''keywords'', a ''keywords''),
                          (''limit'', js_or (a ''limit'') (Some (JNum 25))),
                          (''offset'', js_or (a ''offset'') (Some (JNum 0)))];
               params1 = assign_if (truthy (a ''min_price'')) params0 ''min_price'' (a ''min_price'');
               params2 = assign_if (truthy (a ''max_price'')) params1 ''max_price'' (a ''max_price'');
               params3 = assign_if (truthy (a ''sort_on'')) params2 ''sort_on'' (a ''sort_on'');
               params4 = assign_if (truthy (a ''sort_order'')) params3 ''sort_order'' (a ''sort_order'')
           in await_then
                (axios_request P (axiosInstance srv) GET ''/application/listings/active''
                   (Some params4) None)
                (\<lambda>response. text_result (stringify (number_to_string P) (data response)))))"

text \<open>
  \<open>args.includes?.join(',')\<close>: \<open>undefined\<close> when \<open>includes\<close> is missing or null, the
  joined string when it is an array whose elements can be converted; any other value has
  no callable \<open>join\<close>.
\<close>

fun includes_join :: "numfmt \<Rightarrow> json option \<Rightarrow> js_error + string option" where
  "includes_join ns None = Inr None"
| "includes_join ns (Some JNull) = Inr None"
| "includes_join ns (Some (JArr xs)) =
     (case join ns xs '','' of Inl e \<Rightarrow> Inl e | Inr s \<Rightarrow> Inr (Some s))"
| "includes_join ns (Some v) = Inl (TypeError ''args.includes?.join is not a function'')"

definition getListing :: "platform \<Rightarrow> EtsyMCPServer \<Rightarrow> argbag option \<Rightarrow> CallToolResult effect" where
  "getListing P srv args =
     (case args of
        None \<Rightarrow> (Throw (cannot_read ''includes''), [])
      | Some a \<Rightarrow>
          (case includes_join (number_to_string P) (a ''includes'') of
             Inl e \<Rightarrow> (Throw e, [])
           | Inr includes \<Rightarrow>
               (let params0 = (case includes of
                                 None \<Rightarrow> []
                               | Some s \<Rightarrow> if s \<noteq> [] then [(''includes'', Some (JStr s))] else [])
                in await_then
                     (request_to P (axiosInstance srv) GET
                        (template (number_to_string P)
                           [Lit ''/application/listings/'',
                            Sub (a ''listing_id'')])
                        (Some params0) None)
                     (\<lambda>response. text_result (stringify (number_to_string P) (data response))))))"

definition getShop :: "platform \<Rightarrow> EtsyMCPServer \<Rightarrow> argbag option \<Rightarrow> CallToolResult effect" where
  "getShop P srv args =
     (case args of
        None \<Rightarrow> (Throw (cannot_read ''shop_id''), [])
      | Some a \<Rightarrow>
          await_then
            (request_to P (axiosInstance srv) GET
               (template (number_to_string P)
                  [Lit ''/application/shops/'',
                   Sub (a ''shop_id'')])
               None None)
            (\<lambda>response. text_result (stringify (number_to_string P) (data response))))"

definition getShopListings :: "platform \<Rightarrow> EtsyMCPServer \<Rightarrow> argbag option \<Rightarrow> CallToolResult effect" where
  "getShopListings P srv args =
     (case args of
        None \<Rightarrow> (Throw (cannot_read ''limit''), [])
      | Some a \<Rightarrow>
          (let params0 = [(''limit'', js_or (a ''limit'') (Some (JNum 25))),
                          (''offset'', js_or (a ''offset'') (Some (JNum 0))),
                          (''state'', js_or (a ''state'') (Some (JStr ''active'')))]
           in await_then
                (request_to P (axiosInstance srv) GET
                   (template (number_to_string P)
                      [Lit ''/application/shops/'',
                       Sub (a ''shop_id''),
                       Lit ''/listings''])
                   (Some params0) None)
                (\<lambda>response. text_result (stringify (number_to_string P) (data response)))))"

definition searchShops :: "platform \<Rightarrow> EtsyMCPServer \<Rightarrow> argbag option \<Rightarrow> CallToolResult effect" where
  "searchShops P srv args =
     (case args of
        None \<Rightarrow> (Throw (cannot_read ''shop_name''), [])
      | Some a \<Rightarrow>
          (let params0 = [(''shop_name'', a ''shop_name''),
                          (''limit'', js_or (a ''limit'') (Some (JNum 25))),
                          (''offset'', js_or (a ''offset'') (Some (JNum 0)))]
           in await_then
                (axios_request P (axiosInstance srv) GET ''/application/shops'' (Some params0) None)
                (\<lambda>response. text_result (stringify (number_to_string P) (data response)))))"

definition getListingInventory :: "platform \<Rightarrow> EtsyMCPServer \<Rightarrow> argbag option \<Rightarrow> CallToolResult effect" where
  "getListingInventory P srv args =
     (case args of
        None \<Rightarrow> (Throw (cannot_read ''listing_id''), [])
      | Some a \<Rightarrow>
          await_then
            (request_to P (axiosInstance srv) GET
               (template (number_to_string P)
                  [Lit ''/application/listings/'',
                   Sub (a ''listing_id''),
                   Lit ''/inventory''])
               None None)
            (\<lambda>response. text_result (stringify (number_to_string P) (data response))))"

definition getListingImages :: "platform \<Rightarrow> EtsyMCPServer \<Rightarrow> argbag option \<Rightarrow> CallToolResult effect" where
  "getListingImages P srv args =
     (case args of
        None \<Rightarrow> (Throw (cannot_read ''listing_id''), [])
      | Some a \<Rightarrow>
          await_then
            (request_to P (axiosInstance srv) GET
               (template (number_to_string P)
                  [Lit ''/application/listings/'',
                   Sub (a ''listing_id''),
                   Lit ''/images''])
               None None)
            (\<lambda>response. text_result (stringify (number_to_string P) (data response))))"

definition getShopSections :: "platform \<Rightarrow> EtsyMCPServer \<Rightarrow> argbag option \<Rightarrow> CallToolResult effect" where
  "getShopSections P srv args =
     (case args of
        None \<Rightarrow> (Throw (cannot_read ''shop_id''), [])
      | Some a \<Rightarrow>
          await_then
            (request_to P (axiosInstance srv) GET
               (template (number_to_string P)
                  [Lit ''/application/shops/'',
                   Sub (a ''shop_id''),
                   Lit ''/sections''])
               None None)
            (\<lambda>response. text_result (stringify (number_to_string P) (data response))))"

definition getTrendingListings :: "platform \<Rightarrow> EtsyMCPServer \<Rightarrow> argbag option \<Rightarrow> CallToolResult effect" where
  "getTrendingListings P srv args =
     (case args of
        None \<Rightarrow> (Throw (cannot_read ''limit''), [])
      | Some a \<Rightarrow>
          (let params0 = [(''limit'', js_or (a ''limit'') (Some (JNum 25))),
                          (''offset'', js_or (a ''offset'') (Some (JNum 0)))]
           in await_then
                (axios_request P (axiosInstance srv) GET ''/application/listings/trending''
                   (Some params0) None)
                (\<lambda>response. text_result (stringify (number_to_string P) (data response)))))"

definition findShops :: "platform \<Rightarrow> EtsyMCPServer \<Rightarrow> argbag option \<Rightarrow> CallToolResult effect" where
  "findShops P srv args =
     (case args of
        None \<Rightarrow> (Throw (cannot_read ''limit''), [])
      | Some a \<Rightarrow>
          (let params0 = [(''limit'', js_or (a ''limit'') (Some (JNum 25))),
                          (''offset'', js_or (a ''offset'') (Some (JNum 0)))];
               params1 = assign_if (truthy (a ''location'')) params0 ''location'' (a ''location'')
           in await_then
                (axios_request P (axiosInstance srv) GET ''/application/shops'' (Some params1) None)
                (\<lambda>response. text_result (stringify (number_to_string P) (data response)))))"

section \<open>The shop management handlers\<close>

text \<open>The refusal each of them returns when the configuration has no access token.\<close>

definition token_required :: "numfmt \<Rightarrow> CallToolResult" where
  "token_required ns =
     text_result (stringify_literal ns
       [(''error'',
         Some (JStr ''OAuth access token required. Set ETSY_ACCESS_TOKEN environment variable.''))])"

definition createListing :: "platform \<Rightarrow> EtsyMCPServer \<Rightarrow> argbag option \<Rightarrow> CallToolResult effect" where
  "createListing P srv args =
     (if \<not> truthy_str (accessToken (config srv))
      then (Return (token_required (number_to_string P)), [])
      else case args of
        None \<Rightarrow> (Throw (cannot_read ''quantity''), [])
      | Some a \<Rightarrow>
          (let data0 = [(''quantity'', a ''quantity''),
                        (''title'', a ''title''),
                        (''description'', a ''description''),
                        (''price'', a ''price''),
                        (''who_made'', a ''who_made''),
                        (''when_made'', a ''when_made''),
                        (''taxonomy_id'', a ''taxonomy_id'')];
               data1 = assign_if (truthy (a ''shipping_profile_id'')) data0
                         ''shipping_profile_id'' (a ''shipping_profile_id'');
               data2 = assign_if (truthy (a ''shop_section_id'')) data1
                         ''shop_section_id'' (a ''shop_section_id'');
               data3 = assign_if (truthy (a ''tags'')) data2 ''tags'' (a ''tags'')
           in await_then
                (request_to P (axiosInstance srv) POST
                   (template (number_to_string P)
                      [Lit ''/application/shops/'',
                       Sub (a ''shop_id''),
                       Lit ''/listings''])
                   None (Some data3))
                (\<lambda>response. text_result (stringify (number_to_string P) (data response)))))"

definition updateListing :: "platform \<Rightarrow> EtsyMCPServer \<Rightarrow> argbag option \<Rightarrow> CallToolResult effect" where
  "updateListing P srv args =
     (if \<not> truthy_str (accessToken (config srv))
      then (Return (token_required (number_to_string P)), [])
      else case args of
        None \<Rightarrow> (Throw (cannot_read ''title''), [])
      | Some a \<Rightarrow>
          (let data0 = [];
               data1 = assign_if (truthy (a ''title'')) data0 ''title'' (a ''title'');
               data2 = assign_if (truthy (a ''description'')) data1 ''description'' (a ''description'');
               data3 = assign_if (truthy (a ''price'')) data2 ''price'' (a ''price'');
               data4 = assign_if (truthy (a ''quantity'')) data3 ''quantity'' (a ''quantity'');
               data5 = assign_if (truthy (a ''tags'')) data4 ''tags'' (a ''tags'');
               data6 = assign_if (a ''shop_section_id'' \<noteq> None) data5
                         ''shop_section_id'' (a ''shop_section_id'')
           in await_then
                (request_to P (axiosInstance srv) PATCH
                   (template (number_to_string P)
                      [Lit ''/application/shops/'',
                       Sub (a ''shop_id''),
                       Lit ''/listings/'',
                       Sub (a ''listing_id'')])
                   None (Some data6))
                (\<lambda>response. text_result (stringify (number_to_string P) (data response)))))"

definition deleteListing :: "platform \<Rightarrow> EtsyMCPServer \<Rightarrow> argbag option \<Rightarrow> CallToolResult effect" where
  "deleteListing P srv args =
     (if \<not> truthy_str (accessToken (config srv))
      then (Return (token_required (number_to_string P)), [])
      else case args of
        None \<Rightarrow> (Throw (cannot_read ''listing_id''), [])
      | Some a \<Rightarrow>
          await_then
            (request_to P (axiosInstance srv) DELETE
               (template (number_to_string P)
                  [Lit ''/application/listings/'',
                   Sub (a ''listing_id'')])
               None None)
            (\<lambda>response. text_result (stringify_literal (number_to_string P)
               [(''success'', Some (JBool True)),
                (''message'', Some (JStr ''Listing deleted successfully''))])))"

definition updateListingInventory :: "platform \<Rightarrow> EtsyMCPServer \<Rightarrow> argbag option \<Rightarrow> CallToolResult effect" where
  "updateListingInventory P srv args =
     (if \<not> truthy_str (accessToken (config srv))
      then (Return (token_required (number_to_string P)), [])
      else case args of
        None \<Rightarrow> (Throw (cannot_read ''products''), [])
      | Some a \<Rightarrow>
          (let data0 = [(''products'', a ''products'')];
               data1 = assign_if (truthy (a ''price_on_property'')) data0
                         ''price_on_property'' (a ''price_on_property'');
               data2 = assign_if (truthy (a ''quantity_on_property'')) data1
                         ''quantity_on_property'' (a ''quantity_on_property'');
               data3 = assign_if (truthy (a ''sku_on_property'')) data2
                         ''sku_on_property'' (a ''sku_on_property'')
           in await_then
                (request_to P (axiosInstance srv) PUT
                   (template (number_to_string P)
                      [Lit ''/application/listings/'',
                       Sub (a ''listing_id''),
                       Lit ''/inventory''])
                   None (Some data3))
                (\<lambda>response. text_result (stringify (number_to_string P) (data response)))))"

definition uploadListingImage :: "platform \<Rightarrow> EtsyMCPServer \<Rightarrow> argbag option \<Rightarrow> CallToolResult effect" where
  "uploadListingImage P srv args =
     (if \<not> truthy_str (accessToken (config srv))
      then (Return (token_required (number_to_string P)), [])
      else case args of
        None \<Rightarrow> (Throw (cannot_read ''image_url''), [])
      | Some a \<Rightarrow>
          (let data0 = [(''image'', a ''image_url'')];
               data1 = assign_if (truthy (a ''rank'')) data0 ''rank'' (a ''rank'');
               data2 = assign_if (truthy (a ''alt_text'')) data1 ''alt_text'' (a ''alt_text'')
           in await_then
                (request_to P (axiosInstance srv) POST
                   (template (number_to_string P)
                      [Lit ''/application/shops/'',
                       Sub (a ''shop_id''),
                       Lit ''/listings/'',
                       Sub (a ''listing_id''),
                       Lit ''/images''])
                   None (Some data2))
                (\<lambda>response. text_result (stringify (number_to_string P) (data response)))))"

definition createShopSection :: "platform \<Rightarrow> EtsyMCPServer \<Rightarrow> argbag option \<Rightarrow> CallToolResult effect" where
  "createShopSection P srv args =
     (if \<not> truthy_str (accessToken (config srv))
      then (Return (token_required (number_to_string P)), [])
      else case args of
        None \<Rightarrow> (Throw (cannot_read ''shop_id''), [])
      | Some a \<Rightarrow>
          await_then
            (request_to P (axiosInstance srv) POST
               (template (number_to_string P)
                  [Lit ''/application/shops/'',
                   Sub (a ''shop_id''),
                   Lit ''/sections''])
               None (Some [(''title'', a ''title'')]))
            (\<lambda>response. text_result (stringify (number_to_string P) (data response))))"

definition updateShopSection :: "platform \<Rightarrow> EtsyMCPServer \<Rightarrow> argbag option \<Rightarrow> CallToolResult effect" where
  "updateShopSection P srv args =
     (if \<not> truthy_str (accessToken (config srv))
      then (Return (token_required (number_to_string P)), [])
      else case args of
        None \<Rightarrow> (Throw (cannot_read ''shop_id''), [])
      | Some a \<Rightarrow>
          await_then
            (request_to P (axiosInstance srv) PUT
               (template (number_to_string P)
                  [Lit ''/application/shops/'',
                   Sub (a ''shop_id''),
                   Lit ''/sections/'',
                   Sub (a ''shop_section_id'')])
               None (Some [(''title'', a ''title'')]))
            (\<lambda>response. text_result (stringify (number_to_string P) (data response))))"

definition deleteShopSection :: "platform \<Rightarrow> EtsyMCPServer \<Rightarrow> argbag option \<Rightarrow> CallToolResult effect" where
  "deleteShopSection P srv args =
     (if \<not> truthy_str (accessToken (config srv))
      then (Return (token_required (number_to_string P)), [])
      else case args of
        None \<Rightarrow> (Throw (cannot_read ''shop_id''), [])
      | Some a \<Rightarrow>
          await_then
            (request_to P (axiosInstance srv) DELETE
               (template (number_to_string P)
                  [Lit ''/application/shops/'',
                   Sub (a ''shop_id''),
                   Lit ''/sections/'',
                   Sub (a ''shop_section_id'')])
               None None)
            (\<lambda>response. text_result (stringify_literal (number_to_string P)
               [(''success'', Some (JBool True)),
                (''message'', Some (JStr ''Shop section deleted successfully''))])))"

definition updateShop :: "platform \<Rightarrow> EtsyMCPServer \<Rightarrow> argbag option \<Rightarrow> CallToolResult effect" where
  "updateShop P srv args =
     (if \<not> truthy_str (accessToken (config srv))
      then (Return (token_required (number_to_string P)), [])
      else case args of
        None \<Rightarrow> (Throw (cannot_read ''title''), [])
      | Some a \<Rightarrow>
          (let data0 = [];
               data1 = assign_if (truthy (a ''title'')) data0 ''title'' (a ''title'');
               data2 = assign_if (truthy (a ''announcement'')) data1 ''announcement'' (a ''announcement'');
               data3 = assign_if (truthy (a ''sale_message'')) data2 ''sale_message'' (a ''sale_message'');
               data4 = assign_if (truthy (a ''policy_welcome'')) data3
                         ''policy_welcome'' (a ''policy_welcome'')
           in await_then
                (request_to P (axiosInstance srv) PUT
                   (template (number_to_string P)
                      [Lit ''/application/shops/'',
                       Sub (a ''shop_id'')])
                   None (Some data4))
                (\<lambda>response. text_result (stringify (number_to_string P) (data response)))))"

section \<open>The registry of tools\<close>

text \<open>
  Of each entry of \<open>getTools\<close>: the name, the keys of \<open>inputSchema.properties\<close> in
  order, the \<open>required\<close> list, and the properties that declare a \<open>default\<close>.
\<close>

record Tool =
  name :: string
  properties :: "string list"
  required :: "string list"
  defaults :: "(string \<times> json) list"

definition getTools :: "Tool list" where
  "getTools =
    [\<lparr>name = ''search_listings'',
       properties = [''keywords'', ''limit'', ''offset'', ''min_price'', ''max_price'', ''sort_on'', ''sort_order''],
       required = [''keywords''],
       defaults = [(''limit'', JNum 25), (''offset'', JNum 0)]\<rparr>,
     \<lparr>name = ''get_listing'',
       properties = [''listing_id'', ''includes''],
       required = [''listing_id''],
       defaults = []\<rparr>,
     \<lparr>name = ''get_shop'',
       properties = [''shop_id''],
       required = [''shop_id''],
       defaults = []\<rparr>,
     \<lparr>name = ''get_shop_listings'',
       properties = [''shop_id'', ''limit'', ''offset'', ''state''],
       required = [''shop_id''],
       defaults = [(''limit'', JNum 25), (''offset'', JNum 0), (''state'', JStr ''active'')]\<rparr>,
     \<lparr>name = ''search_shops'',
       properties = [''shop_name'', ''limit'', ''offset''],
       required = [''shop_name''],
       defaults = [(''limit'', JNum 25), (''offset'', JNum 0)]\<rparr>,
     \<lparr>name = ''get_listing_inventory'',
       properties = [''listing_id''],
       required = [''listing_id''],
       defaults = []\<rparr>,
     \<lparr>name = ''get_listing_images'',
       properties = [''listing_id''],
       required = [''listing_id''],
       defaults = []\<rparr>,
     \<lparr>name = ''get_shop_sections'',
       properties = [''shop_id''],
       required = [''shop_id''],
       defaults = []\<rparr>,
     \<lparr>name = ''get_trending_listings'',
       properties = [''limit'', ''offset''],
       required = [],
       defaults = [(''limit'', JNum 25), (''offset'', JNum 0)]\<rparr>,
     \<lparr>name = ''find_shops'',
       properties = [''location'', ''limit'', ''offset''],
       required = [],
       defaults = [(''limit'', JNum 25), (''offset'', JNum 0)]\<rparr>,
     \<lparr>name = ''create_listing'',
       properties = [''shop_id'', ''quantity'', ''title'', ''description'', ''price'', ''who_made'', ''when_made'', ''taxonomy_id'', ''shipping_profile_id'', ''shop_section_id'', ''tags''],
       required = [''shop_id'', ''quantity'', ''title'', ''description'', ''price'', ''who_made'', ''when_made'', ''taxonomy_id''],
       defaults = []\<rparr>,
     \<lparr>name = ''update_listing'',
       properties = [''shop_id'', ''listing_id'', ''title'', ''description'', ''price'', ''quantity'', ''tags'', ''shop_section_id''],
       required = [''shop_id'', ''listing_id''],
       defaults = []\<rparr>,
     \<lparr>name = ''delete_listing'',
       properties = [''listing_id''],
       required = [''listing_id''],
       defaults = []\<rparr>,
     \<lparr>name = ''update_listing_inventory'',
       properties = [''listing_id'', ''products'', ''price_on_property'', ''quantity_on_property'', ''sku_on_property''],
       required = [''listing_id'', ''products''],
       defaults = []\<rparr>,
     \<lparr>name = ''upload_listing_image'',
       properties = [''shop_id'', ''listing_id'', ''image_url'', ''rank'', ''alt_text''],
       required = [''shop_id'', ''listing_id'', ''image_url''],
       defaults = []\<rparr>,
     \<lparr>name = ''create_shop_section'',
       properties = [''shop_id'', ''title''],
       required = [''shop_id'', ''title''],
       defaults = []\<rparr>,
     \<lparr>name = ''update_shop_section'',
       properties = [''shop_id'', ''shop_section_id'', ''title''],
       required = [''shop_id'', ''shop_section_id'', ''title''],
       defaults = []\<rparr>,
     \<lparr>name = ''delete_shop_section'',
       properties = [''shop_id'', ''shop_section_id''],
       required = [''shop_id'', ''shop_section_id''],
       defaults = []\<rparr>,
     \<lparr>name = ''update_shop'',
       properties = [''shop_id'', ''title'', ''announcement'', ''sale_message'', ''policy_welcome''],
       required = [''shop_id''],
       defaults = []\<rparr>]"

section \<open>Handling a tool call\<close>

text \<open>The \<open>switch\<close> on the name inside the \<open>try\<close> block.\<close>

definition switch_name :: "platform \<Rightarrow> EtsyMCPServer \<Rightarrow> string \<Rightarrow> argbag option \<Rightarrow> CallToolResult effect" where
  "switch_name P srv nm args =
     (
      if nm = ''search_listings'' then searchListings P srv args
      else if nm = ''get_listing'' then getListing P srv args
      else if nm = ''get_shop'' then getShop P srv args
      else if nm = ''get_shop_listings'' then getShopListings P srv args
      else if nm = ''search_shops'' then searchShops P srv args
      else if nm = ''get_listing_inventory'' then getListingInventory P srv args
      else if nm = ''get_listing_images'' then getListingImages P srv args
      else if nm = ''get_shop_sections'' then getShopSections P srv args
      else if nm = ''get_trending_listings'' then getTrendingListings P srv args
      else if nm = ''find_shops'' then findShops P srv args
      else if nm = ''create_listing'' then createListing P srv args
      else if nm = ''update_listing'' then updateListing P srv args
      else if nm = ''delete_listing'' then deleteListing P srv args
      else if nm = ''update_listing_inventory'' then updateListingInventory P srv args
      else if nm = ''upload_listing_image'' then uploadListingImage P srv args
      else if nm = ''create_shop_section'' then createShopSection P srv args
      else if nm = ''update_shop_section'' then updateShopSection P srv args
      else if nm = ''delete_shop_section'' then deleteShopSection P srv args
      else if nm = ''update_shop'' then updateShop P srv args
      else (Throw (Error (''Unknown tool: '' @ nm)), []))"

text \<open>The \<open>catch\<close> block: the error of the HTTP client becomes a result, any other is thrown again.\<close>

definition error_result :: "numfmt \<Rightarrow> string \<Rightarrow> AxiosResponse option \<Rightarrow> CallToolResult" where
  "error_result ns msg resp =
     text_result (stringify_literal ns
       [(''error'', js_or (map_option data resp) (Some (JStr msg))),
        (''status'', map_option (\<lambda>r. JNum (of_int (status r))) resp)])"

fun catch_block :: "numfmt \<Rightarrow> js_error \<Rightarrow> CallToolResult completion" where
  "catch_block ns (AxiosError msg resp) = Return (error_result ns msg resp)"
| "catch_block ns (Error msg) = Throw (Error msg)"
| "catch_block ns (TypeError msg) = Throw (TypeError msg)"

definition callTool :: "platform \<Rightarrow> EtsyMCPServer \<Rightarrow> string \<Rightarrow> argbag option \<Rightarrow> CallToolResult effect" where
  "callTool P srv nm args =
     (case switch_name P srv nm args of
        (Return r, reqs) \<Rightarrow> (Return r, reqs)
      | (Throw e, reqs) \<Rightarrow> (catch_block (number_to_string P) e, reqs))"

section \<open>Creating the server\<close>

text \<open>
  \<open>createServer\<close> receives the optional configuration object and reads the process
  environment; it returns the server or throws.
\<close>

definition createServer :: "EtsyConfig option \<Rightarrow> (string \<Rightarrow> string option) \<Rightarrow> EtsyMCPServer completion" where
  "createServer cfg env =
     (let etsyConfig =
        \<lparr>apiKey = (case str_or (str_or (map_option apiKey cfg) (env ''ETSY_API_KEY'')) (Some [])
                    of Some k \<Rightarrow> k | None \<Rightarrow> []),
         shopId = str_or (case cfg of None \<Rightarrow> None | Some c \<Rightarrow> shopId c) (env ''ETSY_SHOP_ID''),
         accessToken = str_or (case cfg of None \<Rightarrow> None | Some c \<Rightarrow> accessToken c)
                         (env ''ETSY_ACCESS_TOKEN'')\<rparr>
      in if apiKey etsyConfig = []
         then Throw (Error ''ETSY_API_KEY is required. Provide it via config or environment variable.'')
         else Return (new_EtsyMCPServer etsyConfig))"

section \<open>Summaries of the handlers\<close>

text \<open>
  The definitions of this section do not translate a function of the source: they name what
  the handlers have in common, and the lemmas of the next sections prove each of them
  against the handlers.

  The \<open>switch\<close> lists the ten reading tools first and, under the comment
  \<open>Shop Management Tools\<close>, the nine tools whose handlers ask for the access token.
\<close>

definition read_tools :: "string list" where
  "read_tools =
     [''search_listings'', ''get_listing'', ''get_shop'', ''get_shop_listings'',
      ''search_shops'', ''get_listing_inventory'', ''get_listing_images'',
      ''get_shop_sections'', ''get_trending_listings'', ''find_shops'']"

definition shop_management_tools :: "string list" where
  "shop_management_tools =
     [''create_listing'', ''update_listing'', ''delete_listing'',
      ''update_listing_inventory'', ''upload_listing_image'', ''create_shop_section'',
      ''update_shop_section'', ''delete_shop_section'', ''update_shop'']"

text \<open>The envelope the handler of a tool builds from a successful response.\<close>

definition success_result :: "numfmt \<Rightarrow> string \<Rightarrow> AxiosResponse \<Rightarrow> CallToolResult" where
  "success_result ns nm response =
     (if nm = ''delete_listing''
      then text_result (stringify ns
             (JObj [(''success'', JBool True), (''message'', JStr ''Listing deleted successfully'')]))
      else if nm = ''delete_shop_section''
      then text_result (stringify ns
             (JObj [(''success'', JBool True), (''message'', JStr ''Shop section deleted successfully'')]))
      else text_result (stringify ns (data response)))"

text \<open>The verb of the request each handler sends.\<close>

definition tool_verb :: "string \<Rightarrow> verb" where
  "tool_verb nm =
     (if nm \<in> set read_tools then GET
      else if nm = ''create_listing'' \<or> nm = ''upload_listing_image'' \<or> nm = ''create_shop_section''
        then POST
      else if nm = ''update_listing'' then PATCH
      else if nm = ''delete_listing'' \<or> nm = ''delete_shop_section'' then DELETE
      else PUT)"

text \<open>
  The two ways a handler proceeds once it is past the token check: it throws a
  \<open>TypeError\<close> before any request, or it sends one request with the verb \<open>m\<close> and
  continues with \<open>k\<close>.
\<close>

definition shaped ::
  "platform \<Rightarrow> EtsyMCPServer \<Rightarrow> verb \<Rightarrow> (AxiosResponse \<Rightarrow> CallToolResult)
     \<Rightarrow> CallToolResult effect \<Rightarrow> bool" where
  "shaped P srv m k e =
     ((\<exists>msg. e = (Throw (TypeError msg), []))
      \<or> (\<exists>u ps b. e = await_then (axios_request P (axiosInstance srv) m u ps b) k))"

text \<open>
  The values that can be converted to a string: every value but an object with a member of
  its own named \<open>toString\<close>, and but an array that holds a value that cannot be
  converted. A missing argument is converted to \<open>undefined\<close>.
\<close>

fun converts :: "json \<Rightarrow> bool"
  and converts_items :: "json list \<Rightarrow> bool" where
  "converts JNull = True"
| "converts (JBool b) = True"
| "converts (JNum q) = True"
| "converts (JStr s) = True"
| "converts (JArr xs) = converts_items xs"
| "converts (JObj kvs) = (''toString'' \<notin> fst ` set kvs)"
| "converts_items [] = True"
| "converts_items (x # xs) = (converts x \<and> converts_items xs)"

definition converts_arg :: "json option \<Rightarrow> bool" where
  "converts_arg v = (case v of None \<Rightarrow> True | Some x \<Rightarrow> converts x)"

text \<open>The templates all of whose substitutions can be converted.\<close>

fun parts_convert :: "part list \<Rightarrow> bool" where
  "parts_convert [] = True"
| "parts_convert (Lit s # ps) = parts_convert ps"
| "parts_convert (Sub v # ps) = (converts_arg v \<and> parts_convert ps)"

text \<open>
  The values of \<open>includes\<close> on which \<open>args.includes?.join(',')\<close> does not throw:
  a missing one, null and an array whose elements can be converted.
\<close>

definition joinable :: "json option \<Rightarrow> bool" where
  "joinable v =
     (case v of
        None \<Rightarrow> True
      | Some JNull \<Rightarrow> True
      | Some (JArr xs) \<Rightarrow> converts_items xs
      | Some _ \<Rightarrow> False)"

text \<open>
  The argument bags on which a reading handler gets as far as its request: those whose
  identifier for the address can be converted and, for \<open>get_listing\<close>, whose
  \<open>includes\<close> can be joined. Four reading handlers convert nothing.
\<close>

definition read_arguments_convert :: "string \<Rightarrow> argbag \<Rightarrow> bool" where
  "read_arguments_convert nm a =
     (if nm = ''get_listing''
        then joinable (a ''includes'') \<and> converts_arg (a ''listing_id'')
      else if nm = ''get_shop'' \<or> nm = ''get_shop_listings'' \<or> nm = ''get_shop_sections''
        then converts_arg (a ''shop_id'')
      else if nm = ''get_listing_inventory'' \<or> nm = ''get_listing_images''
        then converts_arg (a ''listing_id'')
      else True)"

text \<open>The names of the fields a request carries, in its query and in its body.\<close>

definition request_fields :: "http_request \<Rightarrow> string list" where
  "request_fields r =
     map fst (case params r of None \<Rightarrow> [] | Some ps \<Rightarrow> ps)
     @ map fst (case body r of None \<Rightarrow> [] | Some b \<Rightarrow> b)"

section \<open>Stubs for the examples\<close>

text \<open>
  A printer of integers in decimal, as the runtime prints an integer of fewer than 22
  digits; the examples use no other number.
\<close>

fun decimal :: "nat \<Rightarrow> string" where
  "decimal n =
     (if n < 10 then [''0123456789'' ! n]
      else decimal (n div 10) @ [''0123456789'' ! (n mod 10)])"

definition print_integer :: numfmt where
  "print_integer q =
     (if q < 0 then ''-'' @ decimal (nat (- \<lfloor>q\<rfloor>)) else decimal (nat \<lfloor>q\<rfloor>))"

text \<open>A marketplace that answers every request with the same body, and one that fails every request.\<close>

definition answering :: "json \<Rightarrow> platform" where
  "answering d =
     \<lparr>number_to_string = print_integer,
      transport = (\<lambda>r. Return \<lparr>data = d, status = 200\<rparr>)\<rparr>"

definition failing :: "js_error \<Rightarrow> platform" where
  "failing e = \<lparr>number_to_string = print_integer, transport = (\<lambda>r. Throw e)\<rparr>"

definition server_without_token :: EtsyMCPServer where
  "server_without_token =
     new_EtsyMCPServer \<lparr>apiKey = ''key'', shopId = None, accessToken = None\<rparr>"

definition server_with_token :: EtsyMCPServer where
  "server_with_token =
     new_EtsyMCPServer \<lparr>apiKey = ''key'', shopId = None, accessToken = Some ''token''\<rparr>"

definition not_found :: js_error where
  "not_found =
     AxiosError ''Request failed with status code 404''
       (Some \<lparr>data = JObj [(''error'', JStr ''Resource not found'')], status = 404\<rparr>)"

text \<open>A text given line by line.\<close>

definition text_lines :: "string list \<Rightarrow> string" where
  "text_lines ls = intercalate [CHR 0x0A] ls"

section \<open>Facts about the model\<close>

declare decimal.simps [simp del]

declare template.simps [simp del]

lemmas handler_defs =
  searchListings_def getListing_def getShop_def getShopListings_def searchShops_def
  getListingInventory_def getListingImages_def getShopSections_def getTrendingListings_def
  findShops_def createListing_def updateListing_def deleteListing_def
  updateListingInventory_def uploadListingImage_def createShopSection_def
  updateShopSection_def deleteShopSection_def updateShop_def

lemmas printing_defs =
  text_result_def stringify_literal_def stringify_def bracket_def QuoteJSONString_def
  quote_char_def print_integer_def decimal.simps text_lines_def

lemmas example_defs =
  answering_def failing_def server_without_token_def server_with_token_def
  new_EtsyMCPServer_def ETSY_API_BASE_URL_def not_found_def

lemma registry_names: "map name getTools = read_tools @ shop_management_tools"
  by (simp add: getTools_def read_tools_def shop_management_tools_def)

lemma registry_distinct: "distinct (map name getTools)"
  by (simp add: getTools_def)

lemma switch_without_token:
  assumes "nm \<in> set shop_management_tools"
    and "\<not> truthy_str (accessToken (config srv))"
  shows "switch_name P srv nm args = (Return (token_required (number_to_string P)), [])"
  using assms
  by (auto simp add: shop_management_tools_def switch_name_def handler_defs)

lemma switch_unknown:
  assumes "nm \<notin> set (map name getTools)"
  shows "switch_name P srv nm args = (Throw (Error (''Unknown tool: '' @ nm)), [])"
  using assms by (simp add: getTools_def switch_name_def)

subsection \<open>Conversion to a string\<close>

lemma ToString_converts_aux:
  "(converts v \<longrightarrow> (\<exists>s. ToString ns v = Inr s)) \<and> (\<not> converts v \<longrightarrow> ToString ns v = Inl conversion_error)"
  "(converts_items xs \<longrightarrow> (\<exists>ss. join_items ns xs = Inr ss)) \<and> (\<not> converts_items xs \<longrightarrow> join_items ns xs = Inl conversion_error)"
proof (induction ns v and ns xs rule: ToString_join_items.induct)
  case (8 ns x xs)
  show ?case
  proof (cases x)
    case JNull
    with 8 show ?thesis by auto
  qed (use 8 in \<open>auto split: sum.splits\<close>)
qed (auto split: sum.splits)

lemma ToString_converts: "converts v \<Longrightarrow> \<exists>s. ToString ns v = Inr s"
  and ToString_fails: "\<not> converts v \<Longrightarrow> ToString ns v = Inl conversion_error"
  and join_items_converts: "converts_items xs \<Longrightarrow> \<exists>ss. join_items ns xs = Inr ss"
  and join_items_fails: "\<not> converts_items xs \<Longrightarrow> join_items ns xs = Inl conversion_error"
  using ToString_converts_aux by blast+

lemma interp_converts: "converts_arg v \<Longrightarrow> \<exists>s. interp ns v = Inr s"
  by (cases v) (auto simp add: converts_arg_def ToString_converts)

lemma interp_fails: "\<not> converts_arg v \<Longrightarrow> interp ns v = Inl conversion_error"
  by (cases v) (auto simp add: converts_arg_def ToString_fails)

lemma interp_cases:
  "interp ns v = Inl conversion_error \<or> (\<exists>s. interp ns v = Inr s)"
  using interp_converts interp_fails by blast

lemma template_cases:
  "template ns ps = Inl conversion_error \<or> (\<exists>s. template ns ps = Inr s)"
proof (induction ns ps rule: template.induct)
  case (3 ns v ps)
  from interp_cases [of ns v] 3 show ?case by (auto simp add: template.simps split: sum.splits)
qed (auto simp add: template.simps)

lemma join_converts: "converts_items xs \<Longrightarrow> \<exists>s. join ns xs sep = Inr s"
  using join_items_converts [of xs ns] by (auto simp add: join_def)

lemma join_fails: "\<not> converts_items xs \<Longrightarrow> join ns xs sep = Inl conversion_error"
  using join_items_fails [of xs ns] by (simp add: join_def)

lemma includes_join_joinable: "joinable v \<Longrightarrow> \<exists>s. includes_join ns v = Inr s"
proof (cases "(ns, v)" rule: includes_join.cases)
  case (3 ns' xs)
  assume "joinable v"
  with 3 join_converts [of xs ns "'',''"] show ?thesis by (auto simp add: joinable_def)
qed (simp_all add: joinable_def)

lemma includes_join_not_joinable:
  "\<not> joinable v \<Longrightarrow> \<exists>m. includes_join ns v = Inl (TypeError m)"
proof (cases "(ns, v)" rule: includes_join.cases)
  case (3 ns' xs)
  assume "\<not> joinable v"
  with 3 join_fails [of xs ns "'',''"] show ?thesis
    by (simp add: joinable_def conversion_error_def)
qed (simp_all add: joinable_def)

lemma template_converts: "parts_convert ps \<Longrightarrow> \<exists>u. template ns ps = Inr u"
proof (induction ps rule: parts_convert.induct)
  case (3 v ps)
  then show ?case using interp_converts [of v ns] by (auto simp add: template.simps)
qed (auto simp add: template.simps)

lemma template_fails: "\<not> parts_convert ps \<Longrightarrow> template ns ps = Inl conversion_error"
proof (induction ps rule: parts_convert.induct)
  case (3 v ps)
  show ?case
  proof (cases "converts_arg v")
    case True
    with 3 interp_converts [of v ns] show ?thesis by (auto simp add: template.simps)
  next
    case False
    then show ?thesis by (simp add: interp_fails template.simps)
  qed
qed (auto simp add: template.simps)

lemma await_request_to:
  "await_then (request_to P ax m (template ns ps) qs b) k =
     (if parts_convert ps
      then await_then (axios_request P ax m (projr (template ns ps)) qs b) k
      else (Throw conversion_error, []))"
proof (cases "parts_convert ps")
  case True
  from template_converts [OF this, of ns] show ?thesis
    using True by (auto simp add: request_to_def)
next
  case False
  from template_fails [OF this, of ns] show ?thesis
    using False by (simp add: request_to_def await_then_def)
qed

subsection \<open>The shape of a handler\<close>

lemma shaped_throw: "shaped P srv m k (Throw (cannot_read x), [])"
  by (simp add: shaped_def cannot_read_def)

lemma shaped_type_error: "shaped P srv m k (Throw (TypeError x), [])"
  by (simp add: shaped_def)

lemma shaped_call:
  "m' = m \<Longrightarrow> k' = k \<Longrightarrow>
   shaped P srv m k (await_then (axios_request P (axiosInstance srv) m' u ps b) k')"
  unfolding shaped_def by blast

lemma shaped_request:
  "m' = m \<Longrightarrow> k' = k \<Longrightarrow>
   shaped P srv m k (await_then (request_to P (axiosInstance srv) m' (template ns ps) qs b) k')"
  by (simp add: await_request_to shaped_call) (simp add: shaped_def conversion_error_def)

lemma tool_verb_simps:
  "nm \<in> set read_tools \<Longrightarrow> tool_verb nm = GET"
  "tool_verb ''create_listing'' = POST"
  "tool_verb ''update_listing'' = PATCH"
  "tool_verb ''delete_listing'' = DELETE"
  "tool_verb ''update_listing_inventory'' = PUT"
  "tool_verb ''upload_listing_image'' = POST"
  "tool_verb ''create_shop_section'' = POST"
  "tool_verb ''update_shop_section'' = PUT"
  "tool_verb ''delete_shop_section'' = DELETE"
  "tool_verb ''update_shop'' = PUT"
  by (simp_all add: tool_verb_def read_tools_def)

lemma success_result_simps:
  "success_result ns ''delete_listing'' =
     (\<lambda>response. text_result (stringify_literal ns
        [(''success'', Some (JBool True)), (''message'', Some (JStr ''Listing deleted successfully''))]))"
  "success_result ns ''delete_shop_section'' =
     (\<lambda>response. text_result (stringify_literal ns
        [(''success'', Some (JBool True)), (''message'', Some (JStr ''Shop section deleted successfully''))]))"
  "nm \<noteq> ''delete_listing'' \<Longrightarrow> nm \<noteq> ''delete_shop_section'' \<Longrightarrow>
     success_result ns nm = (\<lambda>response. text_result (stringify ns (data response)))"
  by (simp_all add: success_result_def [abs_def] stringify_literal_def)

lemmas shaped_intros =
  shaped_throw shaped_type_error shaped_call shaped_request tool_verb_simps success_result_simps
  read_tools_def

lemma includes_join_cases:
  "(\<exists>m. includes_join ns v = Inl (TypeError m)) \<or> (\<exists>s. includes_join ns v = Inr s)"
  using includes_join_joinable [of v ns] includes_join_not_joinable [of v ns] by blast

lemma searchListings_shaped:
  "shaped P srv (tool_verb ''search_listings'') (success_result (number_to_string P) ''search_listings'')
     (searchListings P srv args)"
  by (cases args) (simp_all add: searchListings_def shaped_intros)

lemma getListing_shaped:
  "shaped P srv (tool_verb ''get_listing'') (success_result (number_to_string P) ''get_listing'')
     (getListing P srv args)"
proof (cases args)
  case None
  then show ?thesis by (simp add: getListing_def shaped_intros)
next
  case (Some a)
  from includes_join_cases [of "number_to_string P" "a ''includes''"] show ?thesis
    by (auto simp add: Some getListing_def shaped_intros)
qed

lemma getShop_shaped:
  "shaped P srv (tool_verb ''get_shop'') (success_result (number_to_string P) ''get_shop'')
     (getShop P srv args)"
  by (cases args) (simp_all add: getShop_def shaped_intros)

lemma getShopListings_shaped:
  "shaped P srv (tool_verb ''get_shop_listings'') (success_result (number_to_string P) ''get_shop_listings'')
     (getShopListings P srv args)"
  by (cases args) (simp_all add: getShopListings_def shaped_intros)

lemma searchShops_shaped:
  "shaped P srv (tool_verb ''search_shops'') (success_result (number_to_string P) ''search_shops'')
     (searchShops P srv args)"
  by (cases args) (simp_all add: searchShops_def shaped_intros)

lemma getListingInventory_shaped:
  "shaped P srv (tool_verb ''get_listing_inventory'') (success_result (number_to_string P) ''get_listing_inventory'')
     (getListingInventory P srv args)"
  by (cases args) (simp_all add: getListingInventory_def shaped_intros)

lemma getListingImages_shaped:
  "shaped P srv (tool_verb ''get_listing_images'') (success_result (number_to_string P) ''get_listing_images'')
     (getListingImages P srv args)"
  by (cases args) (simp_all add: getListingImages_def shaped_intros)

lemma getShopSections_shaped:
  "shaped P srv (tool_verb ''get_shop_sections'') (success_result (number_to_string P) ''get_shop_sections'')
     (getShopSections P srv args)"
  by (cases args) (simp_all add: getShopSections_def shaped_intros)

lemma getTrendingListings_shaped:
  "shaped P srv (tool_verb ''get_trending_listings'') (success_result (number_to_string P) ''get_trending_listings'')
     (getTrendingListings P srv args)"
  by (cases args) (simp_all add: getTrendingListings_def shaped_intros)

lemma findShops_shaped:
  "shaped P srv (tool_verb ''find_shops'') (success_result (number_to_string P) ''find_shops'')
     (findShops P srv args)"
  by (cases args) (simp_all add: findShops_def shaped_intros)

lemma createListing_shaped:
  "truthy_str (accessToken (config srv)) \<Longrightarrow>
   shaped P srv (tool_verb ''create_listing'') (success_result (number_to_string P) ''create_listing'')
     (createListing P srv args)"
  by (cases args) (simp_all add: createListing_def shaped_intros)

lemma updateListing_shaped:
  "truthy_str (accessToken (config srv)) \<Longrightarrow>
   shaped P srv (tool_verb ''update_listing'') (success_result (number_to_string P) ''update_listing'')
     (updateListing P srv args)"
  by (cases args) (simp_all add: updateListing_def shaped_intros)

lemma deleteListing_shaped:
  "truthy_str (accessToken (config srv)) \<Longrightarrow>
   shaped P srv (tool_verb ''delete_listing'') (success_result (number_to_string P) ''delete_listing'')
     (deleteListing P srv args)"
  by (cases args) (simp_all add: deleteListing_def shaped_intros)

lemma updateListingInventory_shaped:
  "truthy_str (accessToken (config srv)) \<Longrightarrow>
   shaped P srv (tool_verb ''update_listing_inventory'') (success_result (number_to_string P) ''update_listing_inventory'')
     (updateListingInventory P srv args)"
  by (cases args) (simp_all add: updateListingInventory_def shaped_intros)

lemma uploadListingImage_shaped:
  "truthy_str (accessToken (config srv)) \<Longrightarrow>
   shaped P srv (tool_verb ''upload_listing_image'') (success_result (number_to_string P) ''upload_listing_image'')
     (uploadListingImage P srv args)"
  by (cases args) (simp_all add: uploadListingImage_def shaped_intros)

lemma createShopSection_shaped:
  "truthy_str (accessToken (config srv)) \<Longrightarrow>
   shaped P srv (tool_verb ''create_shop_section'') (success_result (number_to_string P) ''create_shop_section'')
     (createShopSection P srv args)"
  by (cases args) (simp_all add: createShopSection_def shaped_intros)

lemma updateShopSection_shaped:
  "truthy_str (accessToken (config srv)) \<Longrightarrow>
   shaped P srv (tool_verb ''update_shop_section'') (success_result (number_to_string P) ''update_shop_section'')
     (updateShopSection P srv args)"
  by (cases args) (simp_all add: updateShopSection_def shaped_intros)

lemma deleteShopSection_shaped:
  "truthy_str (accessToken (config srv)) \<Longrightarrow>
   shaped P srv (tool_verb ''delete_shop_section'') (success_result (number_to_string P) ''delete_shop_section'')
     (deleteShopSection P srv args)"
  by (cases args) (simp_all add: deleteShopSection_def shaped_intros)

lemma updateShop_shaped:
  "truthy_str (accessToken (config srv)) \<Longrightarrow>
   shaped P srv (tool_verb ''update_shop'') (success_result (number_to_string P) ''update_shop'')
     (updateShop P srv args)"
  by (cases args) (simp_all add: updateShop_def shaped_intros)

lemma switch_shaped:
  assumes "nm \<in> set (map name getTools)"
    and "nm \<in> set shop_management_tools \<longrightarrow> truthy_str (accessToken (config srv))"
  shows "shaped P srv (tool_verb nm) (success_result (number_to_string P) nm)
           (switch_name P srv nm args)"
  using assms
  apply (simp add: getTools_def shop_management_tools_def)
  apply (elim disjE)
  apply (simp_all add: switch_name_def searchListings_shaped getListing_shaped getShop_shaped getShopListings_shaped searchShops_shaped getListingInventory_shaped getListingImages_shaped getShopSections_shaped getTrendingListings_shaped findShops_shaped createListing_shaped updateListing_shaped deleteListing_shaped updateListingInventory_shaped uploadListingImage_shaped createShopSection_shaped updateShopSection_shaped deleteShopSection_shaped updateShop_shaped)
  done

subsection \<open>The outcomes of a call\<close>

lemma callTool_shaped:
  assumes "shaped P srv m k (switch_name P srv nm args)"
  shows "(\<exists>msg. callTool P srv nm args = (Throw (TypeError msg), []))
       \<or> (\<exists>r. http_method r = m \<and> callTool P srv nm args =
             ((case transport P r of
                 Return response \<Rightarrow> Return (k response)
               | Throw e \<Rightarrow> catch_block (number_to_string P) e), [r]))"
  using assms unfolding shaped_def
proof (elim disjE exE)
  fix msg assume "switch_name P srv nm args = (Throw (TypeError msg), [])"
  then show ?thesis by (simp add: callTool_def)
next
  fix u ps b
  assume sw: "switch_name P srv nm args = await_then (axios_request P (axiosInstance srv) m u ps b) k"
  define r where "r = \<lparr>http_method = m, baseURL = instance_baseURL (axiosInstance srv), url = u,
               headers = instance_headers (axiosInstance srv), params = ps, body = b\<rparr>"
  have "callTool P srv nm args =
             ((case transport P r of
                 Return response \<Rightarrow> Return (k response)
               | Throw e \<Rightarrow> catch_block (number_to_string P) e), [r])"
    by (simp add: callTool_def sw await_then_def axios_request_def r_def split: completion.splits)
  moreover have "http_method r = m" by (simp add: r_def)
  ultimately show ?thesis by blast
qed

lemma callTool_cases:
  assumes "nm \<in> set (map name getTools)"
  shows "(callTool P srv nm args = (Return (token_required (number_to_string P)), [])
          \<and> nm \<in> set shop_management_tools \<and> \<not> truthy_str (accessToken (config srv)))
       \<or> (\<exists>msg. callTool P srv nm args = (Throw (TypeError msg), []))
       \<or> (\<exists>r. http_method r = tool_verb nm \<and> callTool P srv nm args =
             ((case transport P r of
                 Return response \<Rightarrow> Return (success_result (number_to_string P) nm response)
               | Throw e \<Rightarrow> catch_block (number_to_string P) e), [r]))"
proof (cases "nm \<in> set shop_management_tools \<and> \<not> truthy_str (accessToken (config srv))")
  case True
  then have "switch_name P srv nm args = (Return (token_required (number_to_string P)), [])"
    by (simp add: switch_without_token)
  then show ?thesis using True by (simp add: callTool_def)
next
  case False
  then have "shaped P srv (tool_verb nm) (success_result (number_to_string P) nm)
           (switch_name P srv nm args)"
    using assms by (intro switch_shaped) auto
  from callTool_shaped [OF this] show ?thesis by blast
qed

lemma error_result_text:
  "error_result ns msg resp =
     \<lparr>content =
        [\<lparr>type_field = ''text'',
          text_field = stringify ns
            (JObj ((''error'',
                     (case resp of
                        None \<Rightarrow> JStr msg
                      | Some rs \<Rightarrow> if truthy_json (data rs) then data rs else JStr msg))
                   # (case resp of
                        None \<Rightarrow> []
                      | Some rs \<Rightarrow> [(''status'', JNum (of_int (status rs)))])))\<rparr>]\<rparr>"
  by (cases resp) (simp_all add: error_result_def text_result_def stringify_literal_def js_or_def)

subsection \<open>Objects and the request log\<close>

lemma map_of_assign: "map_of (assign obj k v) k' = (if k' = k then Some v else map_of obj k')"
  by (induction obj) auto

lemma map_fst_assign:
  "map fst (assign obj k v) = (if k \<in> fst ` set obj then map fst obj else map fst obj @ [k])"
  by (induction obj) (force+)

lemma keys_assign: "fst ` set (assign obj k v) = insert k (fst ` set obj)"
proof -
  have "set (map fst (assign obj k v)) = insert k (set (map fst obj))"
    unfolding map_fst_assign by auto
  then show ?thesis by simp
qed

lemma map_of_assign_if:
  "map_of (assign_if c obj k v) k' = (if c \<and> k' = k then Some v else map_of obj k')"
  by (simp add: assign_if_def map_of_assign)

lemma keys_assign_if:
  "fst ` set (assign_if c obj k v) = (if c then insert k (fst ` set obj) else fst ` set obj)"
  by (simp add: assign_if_def keys_assign)

lemma key_assign_if:
  "k \<in> fst ` set (assign_if c obj k' v) \<longleftrightarrow> (c \<and> k = k') \<or> k \<in> fst ` set obj"
  by (simp add: keys_assign_if)

lemma snd_await_then: "snd (await_then e k) = snd e"
  by (simp add: await_then_def split: completion.splits)

lemma snd_axios_request:
  "snd (axios_request P ax m u ps b) =
     [\<lparr>http_method = m, baseURL = instance_baseURL ax, url = u,
       headers = instance_headers ax, params = ps, body = b\<rparr>]"
  by (simp add: axios_request_def Let_def)

lemma snd_callTool: "snd (callTool P srv nm args) = snd (switch_name P srv nm args)"
  by (simp add: callTool_def split: prod.splits completion.splits)

lemmas request_log = snd_callTool await_request_to snd_await_then snd_axios_request

lemma callTool_conversion_error:
  "switch_name P srv nm args = (Throw conversion_error, []) \<Longrightarrow>
   callTool P srv nm args = (Throw conversion_error, [])"
  by (simp add: callTool_def conversion_error_def)

lemma updateListing_log:
  assumes "truthy_str (accessToken (config srv))"
  shows "if converts_arg (a ''shop_id'') \<and> converts_arg (a ''listing_id'')
         then \<exists>r. snd (callTool P srv ''update_listing'' (Some a)) = [r]
           \<and> http_method r = PATCH \<and> params r = None
           \<and> body r = Some
                (assign_if (a ''shop_section_id'' \<noteq> None)
                  (assign_if (truthy (a ''tags''))
                    (assign_if (truthy (a ''quantity''))
                      (assign_if (truthy (a ''price''))
                        (assign_if (truthy (a ''description''))
                          (assign_if (truthy (a ''title'')) [] ''title'' (a ''title''))
                          ''description'' (a ''description''))
                        ''price'' (a ''price''))
                      ''quantity'' (a ''quantity''))
                    ''tags'' (a ''tags''))
                  ''shop_section_id'' (a ''shop_section_id''))
         else callTool P srv ''update_listing'' (Some a) = (Throw conversion_error, [])"
proof (cases "converts_arg (a ''shop_id'') \<and> converts_arg (a ''listing_id'')")
  case True
  with assms show ?thesis
    by (simp add: request_log switch_name_def updateListing_def)
next
  case False
  with assms have "switch_name P srv ''update_listing'' (Some a) = (Throw conversion_error, [])"
    by (auto simp add: switch_name_def updateListing_def await_request_to)
  from callTool_conversion_error [OF this] False show ?thesis by simp
qed

lemma updateShop_log:
  assumes "truthy_str (accessToken (config srv))"
  shows "if converts_arg (a ''shop_id'')
         then \<exists>r. snd (callTool P srv ''update_shop'' (Some a)) = [r]
           \<and> http_method r = PUT \<and> params r = None
           \<and> body r = Some
                (assign_if (truthy (a ''policy_welcome''))
                  (assign_if (truthy (a ''sale_message''))
                    (assign_if (truthy (a ''announcement''))
                      (assign_if (truthy (a ''title'')) [] ''title'' (a ''title''))
                      ''announcement'' (a ''announcement''))
                    ''sale_message'' (a ''sale_message''))
                  ''policy_welcome'' (a ''policy_welcome''))
         else callTool P srv ''update_shop'' (Some a) = (Throw conversion_error, [])"
proof (cases "converts_arg (a ''shop_id'')")
  case True
  with assms show ?thesis
    by (simp add: request_log switch_name_def updateShop_def)
next
  case False
  with assms have "switch_name P srv ''update_shop'' (Some a) = (Throw conversion_error, [])"
    by (auto simp add: switch_name_def updateShop_def await_request_to)
  from callTool_conversion_error [OF this] False show ?thesis by simp
qed

subsection \<open>The fields a request carries\<close>

lemma truthy_defined: "truthy v \<Longrightarrow> \<exists>y. v = Some y"
  by (cases v) simp_all

lemma includes_join_defined:
  "includes_join ns v = Inr (Some s) \<Longrightarrow> \<exists>y. v = Some y"
  by (cases "(ns, v)" rule: includes_join.cases) (simp_all split: sum.splits)

lemma field_assign_if:
  "f \<in> set (map fst (assign_if c obj k v)) \<longleftrightarrow> (c \<and> f = k) \<or> f \<in> set (map fst obj)"
  using key_assign_if [of f c obj k v] by simp

lemma fields_searchListings:
  assumes "r \<in> set (snd (switch_name P srv ''search_listings'' (Some a)))"
    and "f \<in> set (request_fields r)"
  shows "f \<in> {''keywords'', ''limit'', ''offset''} \<or> a f \<noteq> None"
  using assms
  apply (simp add: switch_name_def searchListings_def request_log request_fields_def field_assign_if
           del: set_map split: if_splits)
  apply (elim disjE conjE; simp add: truthy_defined)?
  done

lemma fields_getListing:
  assumes "r \<in> set (snd (switch_name P srv ''get_listing'' (Some a)))"
    and "f \<in> set (request_fields r)"
  shows "a f \<noteq> None"
  using assms
  by (cases "includes_join (number_to_string P) (a ''includes'')")
     (auto simp add: switch_name_def getListing_def request_log request_fields_def
        split: option.splits if_splits dest: includes_join_defined)

lemma fields_getShop:
  assumes "r \<in> set (snd (switch_name P srv ''get_shop'' (Some a)))"
    and "f \<in> set (request_fields r)"
  shows "a f \<noteq> None"
  using assms
  apply (simp add: switch_name_def getShop_def request_log request_fields_def field_assign_if
           del: set_map split: if_splits)
  apply (elim disjE conjE; simp add: truthy_defined)?
  done

lemma fields_getShopListings:
  assumes "r \<in> set (snd (switch_name P srv ''get_shop_listings'' (Some a)))"
    and "f \<in> set (request_fields r)"
  shows "f \<in> {''limit'', ''offset'', ''state''} \<or> a f \<noteq> None"
  using assms
  apply (simp add: switch_name_def getShopListings_def request_log request_fields_def field_assign_if
           del: set_map split: if_splits)
  apply (elim disjE conjE; simp add: truthy_defined)?
  done

lemma fields_searchShops:
  assumes "r \<in> set (snd (switch_name P srv ''search_shops'' (Some a)))"
    and "f \<in> set (request_fields r)"
  shows "f \<in> {''shop_name'', ''limit'', ''offset''} \<or> a f \<noteq> None"
  using assms
  apply (simp add: switch_name_def searchShops_def request_log request_fields_def field_assign_if
           del: set_map split: if_splits)
  apply (elim disjE conjE; simp add: truthy_defined)?
  done

lemma fields_getListingInventory:
  assumes "r \<in> set (snd (switch_name P srv ''get_listing_inventory'' (Some a)))"
    and "f \<in> set (request_fields r)"
  shows "a f \<noteq> None"
  using assms
  apply (simp add: switch_name_def getListingInventory_def request_log request_fields_def field_assign_if
           del: set_map split: if_splits)
  apply (elim disjE conjE; simp add: truthy_defined)?
  done

lemma fields_getListingImages:
  assumes "r \<in> set (snd (switch_name P srv ''get_listing_images'' (Some a)))"
    and "f \<in> set (request_fields r)"
  shows "a f \<noteq> None"
  using assms
  apply (simp add: switch_name_def getListingImages_def request_log request_fields_def field_assign_if
           del: set_map split: if_splits)
  apply (elim disjE conjE; simp add: truthy_defined)?
  done

lemma fields_getShopSections:
  assumes "r \<in> set (snd (switch_name P srv ''get_shop_sections'' (Some a)))"
    and "f \<in> set (request_fields r)"
  shows "a f \<noteq> None"
  using assms
  apply (simp add: switch_name_def getShopSections_def request_log request_fields_def field_assign_if
           del: set_map split: if_splits)
  apply (elim disjE conjE; simp add: truthy_defined)?
  done

lemma fields_getTrendingListings:
  assumes "r \<in> set (snd (switch_name P srv ''get_trending_listings'' (Some a)))"
    and "f \<in> set (request_fields r)"
  shows "f \<in> {''limit'', ''offset''} \<or> a f \<noteq> None"
  using assms
  apply (simp add: switch_name_def getTrendingListings_def request_log request_fields_def field_assign_if
           del: set_map split: if_splits)
  apply (elim disjE conjE; simp add: truthy_defined)?
  done

lemma fields_findShops:
  assumes "r \<in> set (snd (switch_name P srv ''find_shops'' (Some a)))"
    and "f \<in> set (request_fields r)"
  shows "f \<in> {''limit'', ''offset''} \<or> a f \<noteq> None"
  using assms
  apply (simp add: switch_name_def findShops_def request_log request_fields_def field_assign_if
           del: set_map split: if_splits)
  apply (elim disjE conjE; simp add: truthy_defined)?
  done

lemma fields_createListing:
  assumes "r \<in> set (snd (switch_name P srv ''create_listing'' (Some a)))"
    and "f \<in> set (request_fields r)"
  shows "f \<in> {''quantity'', ''title'', ''description'', ''price'', ''who_made'', ''when_made'', ''taxonomy_id''} \<or> a f \<noteq> None"
  using assms
  apply (simp add: switch_name_def createListing_def request_log request_fields_def field_assign_if
           del: set_map split: if_splits)
  apply (elim disjE conjE; simp add: truthy_defined)?
  done

lemma fields_updateListing:
  assumes "r \<in> set (snd (switch_name P srv ''update_listing'' (Some a)))"
    and "f \<in> set (request_fields r)"
  shows "a f \<noteq> None"
  using assms
  apply (simp add: switch_name_def updateListing_def request_log request_fields_def field_assign_if
           del: set_map split: if_splits)
  apply (elim disjE conjE; simp add: truthy_defined)?
  done

lemma fields_deleteListing:
  assumes "r \<in> set (snd (switch_name P srv ''delete_listing'' (Some a)))"
    and "f \<in> set (request_fields r)"
  shows "a f \<noteq> None"
  using assms
  apply (simp add: switch_name_def deleteListing_def request_log request_fields_def field_assign_if
           del: set_map split: if_splits)
  apply (elim disjE conjE; simp add: truthy_defined)?
  done

lemma fields_updateListingInventory:
  assumes "r \<in> set (snd (switch_name P srv ''update_listing_inventory'' (Some a)))"
    and "f \<in> set (request_fields r)"
  shows "f \<in> {''products''} \<or> a f \<noteq> None"
  using assms
  apply (simp add: switch_name_def updateListingInventory_def request_log request_fields_def field_assign_if
           del: set_map split: if_splits)
  apply (elim disjE conjE; simp add: truthy_defined)?
  done

lemma fields_uploadListingImage:
  assumes "r \<in> set (snd (switch_name P srv ''upload_listing_image'' (Some a)))"
    and "f \<in> set (request_fields r)"
  shows "f \<in> {''image''} \<or> a f \<noteq> None"
  using assms
  apply (simp add: switch_name_def uploadListingImage_def request_log request_fields_def field_assign_if
           del: set_map split: if_splits)
  apply (elim disjE conjE; simp add: truthy_defined)?
  done

lemma fields_createShopSection:
  assumes "r \<in> set (snd (switch_name P srv ''create_shop_section'' (Some a)))"
    and "f \<in> set (request_fields r)"
  shows "f \<in> {''title''} \<or> a f \<noteq> None"
  using assms
  apply (simp add: switch_name_def createShopSection_def request_log request_fields_def field_assign_if
           del: set_map split: if_splits)
  apply (elim disjE conjE; simp add: truthy_defined)?
  done

lemma fields_updateShopSection:
  assumes "r \<in> set (snd (switch_name P srv ''update_shop_section'' (Some a)))"
    and "f \<in> set (request_fields r)"
  shows "f \<in> {''title''} \<or> a f \<noteq> None"
  using assms
  apply (simp add: switch_name_def updateShopSection_def request_log request_fields_def field_assign_if
           del: set_map split: if_splits)
  apply (elim disjE conjE; simp add: truthy_defined)?
  done

lemma fields_deleteShopSection:
  assumes "r \<in> set (snd (switch_name P srv ''delete_shop_section'' (Some a)))"
    and "f \<in> set (request_fields r)"
  shows "a f \<noteq> None"
  using assms
  apply (simp add: switch_name_def deleteShopSection_def request_log request_fields_def field_assign_if
           del: set_map split: if_splits)
  apply (elim disjE conjE; simp add: truthy_defined)?
  done

lemma fields_updateShop:
  assumes "r \<in> set (snd (switch_name P srv ''update_shop'' (Some a)))"
    and "f \<in> set (request_fields r)"
  shows "a f \<noteq> None"
  using assms
  apply (simp add: switch_name_def updateShop_def request_log request_fields_def field_assign_if
           del: set_map split: if_splits)
  apply (elim disjE conjE; simp add: truthy_defined)?
  done

lemma sent_field:
  assumes "t \<in> set getTools"
    and "r \<in> set (snd (callTool P srv (name t) (Some a)))"
    and "f \<in> set (request_fields r)"
  shows "f \<in> set (required t) \<or> f \<in> fst ` set (defaults t) \<or> a f \<noteq> None
         \<or> f = ''image''"
  using assms
  apply (simp add: getTools_def snd_callTool)
  apply (elim disjE)
  apply simp_all
  apply (drule (1) fields_searchListings, auto)[1]
  apply (drule (1) fields_getListing, auto)[1]
  apply (drule (1) fields_getShop, auto)[1]
  apply (drule (1) fields_getShopListings, auto)[1]
  apply (drule (1) fields_searchShops, auto)[1]
  apply (drule (1) fields_getListingInventory, auto)[1]
  apply (drule (1) fields_getListingImages, auto)[1]
  apply (drule (1) fields_getShopSections, auto)[1]
  apply (drule (1) fields_getTrendingListings, auto)[1]
  apply (drule (1) fields_findShops, auto)[1]
  apply (drule (1) fields_createListing, auto)[1]
  apply (drule (1) fields_updateListing, auto)[1]
  apply (drule (1) fields_deleteListing, auto)[1]
  apply (drule (1) fields_updateListingInventory, auto)[1]
  apply (drule (1) fields_uploadListingImage, auto)[1]
  apply (drule (1) fields_createShopSection, auto)[1]
  apply (drule (1) fields_updateShopSection, auto)[1]
  apply (drule (1) fields_deleteShopSection, auto)[1]
  apply (drule (1) fields_updateShop, auto)[1]
  done

lemma image_is_no_property: "t \<in> set getTools \<Longrightarrow> ''image'' \<notin> set (properties t)"
  by (auto simp add: getTools_def)

subsection \<open>Calls that throw before a request\<close>

lemma callTool_type_error:
  "switch_name P srv nm args = (Throw (TypeError m), []) \<Longrightarrow>
   callTool P srv nm args = (Throw (TypeError m), [])"
  by (simp add: callTool_def)

lemma getListing_sends:
  assumes "joinable (a ''includes'')" and "converts_arg (a ''listing_id'')"
  shows "length (snd (getListing P srv (Some a))) = 1"
  using includes_join_joinable [OF assms(1), of "number_to_string P"] assms(2)
  by (auto simp add: getListing_def await_request_to snd_await_then snd_axios_request)

lemma getListing_throws:
  assumes "\<not> (joinable (a ''includes'') \<and> converts_arg (a ''listing_id''))"
  shows "\<exists>m. getListing P srv (Some a) = (Throw (TypeError m), [])"
proof (cases "joinable (a ''includes'')")
  case True
  with assms have "\<not> converts_arg (a ''listing_id'')" by simp
  with includes_join_joinable [OF True, of "number_to_string P"] show ?thesis
    by (auto simp add: getListing_def await_request_to conversion_error_def)
next
  case False
  from includes_join_not_joinable [OF this, of "number_to_string P"] show ?thesis
    by (auto simp add: getListing_def)
qed

lemma read_tool_sends:
  assumes "nm \<in> set read_tools" and "read_arguments_convert nm a"
  shows "length (snd (callTool P srv nm (Some a))) = 1"
  using assms
  apply (simp add: read_tools_def)
  apply (elim disjE)
  apply (simp_all add: read_arguments_convert_def snd_callTool switch_name_def getListing_sends)
  apply (simp_all add: searchListings_def getShop_def getShopListings_def searchShops_def
      getListingInventory_def getListingImages_def getShopSections_def
      getTrendingListings_def findShops_def await_request_to snd_await_then snd_axios_request)
  done

lemma read_tool_throws:
  assumes "nm \<in> set read_tools" and "\<not> read_arguments_convert nm a"
  shows "\<exists>m. callTool P srv nm (Some a) = (Throw (TypeError m), [])"
proof -
  have "\<exists>m. switch_name P srv nm (Some a) = (Throw (TypeError m), [])"
    using assms
    apply (simp add: read_tools_def)
    apply (elim disjE)
    apply (simp_all add: read_arguments_convert_def switch_name_def getListing_throws)
    apply (simp_all add: getShop_def getShopListings_def
      getListingInventory_def getListingImages_def getShopSections_def
      await_request_to conversion_error_def)
    done
  then show ?thesis using callTool_type_error by blast
qed

lemma undefined_arguments_throw:
  assumes "nm \<in> set (map name getTools)"
    and "nm \<in> set read_tools \<or> truthy_str (accessToken (config srv))"
  shows "\<exists>m. callTool P srv nm None = (Throw (TypeError m), [])"
proof -
  have "\<exists>m. switch_name P srv nm None = (Throw (TypeError m), [])"
    using assms
    apply (simp add: getTools_def read_tools_def)
    apply (elim disjE)
    apply (simp_all add: switch_name_def handler_defs cannot_read_def)
    done
  then show ?thesis using callTool_type_error by blast
qed

lemma callTool_never_throws_axios:
  assumes "callTool P srv nm args = (Throw e, reqs)"
  shows "\<not> isAxiosError e"
proof (cases "switch_name P srv nm args")
  case (Pair c reqs')
  show ?thesis
  proof (cases c)
    case (Return x)
    with Pair assms show ?thesis by (simp add: callTool_def)
  next
    case (Throw e')
    with Pair assms show ?thesis by (cases e') (auto simp add: callTool_def)
  qed
qed

section \<open>The claims\<close>

text \<open>
  C1. A shop management tool called on a server whose configuration has no access token
  (none at all, or the empty string) returns, without throwing, the envelope whose text
  is the serialisation of the object with the single property \<open>error\<close> holding the
  message that asks for the OAuth access token, and it sends no HTTP request.
\<close>

theorem token_gate_refuses_without_request:
  assumes "nm \<in> set shop_management_tools"
    and "\<not> truthy_str (accessToken (config srv))"
  shows "callTool P srv nm args =
           (Return \<lparr>content =
              [\<lparr>type_field = ''text'',
                text_field = stringify (number_to_string P)
                  (JObj [(''error'',
                     JStr ''OAuth access token required. Set ETSY_ACCESS_TOKEN environment variable.'')])\<rparr>]\<rparr>,
            [])"
  using switch_without_token [OF assms, of P args]
  by (simp add: callTool_def token_required_def text_result_def stringify_literal_def)

theorem token_gate_refuses_without_request_witness:
  "''create_listing'' \<in> set shop_management_tools
   \<and> \<not> truthy_str (accessToken (config server_without_token))
   \<and> callTool (answering JNull) server_without_token ''create_listing''
        (Some (map_of [(''shop_id'', JNum 7), (''title'', JStr ''Mug'')])) =
       (Return \<lparr>content =
          [\<lparr>type_field = ''text'',
            text_field = ''{'' @ [CHR 0x0A] @ ''  '' @ [CHR 0x22] @ ''error'' @ [CHR 0x22] @ '': ''
              @ [CHR 0x22]
              @ ''OAuth access token required. Set ETSY_ACCESS_TOKEN environment variable.''
              @ [CHR 0x22, CHR 0x0A] @ ''}''\<rparr>]\<rparr>,
        [])"
  using token_gate_refuses_without_request
    [of "''create_listing''" server_without_token "answering JNull"
        "Some (map_of [(''shop_id'', JNum 7), (''title'', JStr ''Mug'')])"]
  by (simp add: shop_management_tools_def example_defs printing_defs)

text \<open>
  C2. The registry has 19 tools. A call with a name that is none of them throws the
  error \<open>Unknown tool\<close> with the name, which the \<open>catch\<close> block throws again rather
  than turning it into an envelope, and it sends no HTTP request.
\<close>

theorem unknown_tool_is_thrown:
  assumes "nm \<notin> set (map name getTools)"
  shows "length getTools = 19
         \<and> callTool P srv nm args = (Throw (Error (''Unknown tool: '' @ nm)), [])"
  using switch_unknown [OF assms, of P srv args]
  by (simp add: callTool_def getTools_def)

theorem unknown_tool_is_thrown_witness:
  "''get_prices'' \<notin> set (map name getTools)
   \<and> length getTools = 19
   \<and> callTool (answering JNull) server_with_token ''get_prices'' (Some (map_of [])) =
       (Throw (Error ''Unknown tool: get_prices''), [])"
  using unknown_tool_is_thrown
    [of "''get_prices''" "answering JNull" server_with_token "Some (map_of [])"]
  by (simp add: getTools_def)

text \<open>
  C3. When the request of a registered tool is rejected with the error of the HTTP client,
  the call returns the envelope whose text serialises the object with \<open>error\<close>,
  the data of the response when there is a response with truthy data and the message of
  the error otherwise, and with \<open>status\<close>, the status of the response when there is a
  response. No call ever throws the error of the HTTP client. Every other error is thrown
  to the caller as it is: one the transport rejects the request with, and one the handler
  raises before any request, which it does when the arguments are undefined and when an
  argument it converts to a string cannot be converted. The witness is the rejected
  \<open>get_listing\<close> with status 404, next to two calls that throw before a request.
\<close>

theorem transport_failure_becomes_envelope:
  assumes "nm \<in> set (map name getTools)"
    and "callTool P srv nm args = (out, reqs)"
  shows "(\<forall>r e. r \<in> set reqs \<and> transport P r = Throw e \<longrightarrow>
            reqs = [r]
            \<and> (case e of
                  AxiosError msg resp \<Rightarrow>
                    out = Return \<lparr>content =
                      [\<lparr>type_field = ''text'',
                        text_field = stringify (number_to_string P)
                          (JObj ((''error'',
                                   (case resp of
                                      None \<Rightarrow> JStr msg
                                    | Some rs \<Rightarrow> if truthy_json (data rs) then data rs else JStr msg))
                                 # (case resp of
                                      None \<Rightarrow> []
                                    | Some rs \<Rightarrow> [(''status'', JNum (of_int (status rs)))])))\<rparr>]\<rparr>
                | Error msg \<Rightarrow> out = Throw e
                | TypeError msg \<Rightarrow> out = Throw e))
       \<and> (\<forall>e'. out = Throw e' \<longrightarrow> \<not> isAxiosError e')
       \<and> (\<forall>e' reqs'. switch_name P srv nm args = (Throw e', reqs') \<and> \<not> isAxiosError e' \<longrightarrow>
             out = Throw e' \<and> reqs = reqs')
       \<and> (args = None \<and> (nm \<in> set read_tools \<or> truthy_str (accessToken (config srv))) \<longrightarrow>
             (\<exists>msg. out = Throw (TypeError msg)) \<and> reqs = [])
       \<and> (\<forall>a. args = Some a \<and> nm \<in> set read_tools \<and> \<not> read_arguments_convert nm a \<longrightarrow>
             (\<exists>msg. out = Throw (TypeError msg)) \<and> reqs = [])"
proof (intro conjI allI impI)
  fix r e
  assume h: "r \<in> set reqs \<and> transport P r = Throw e"
  from callTool_cases [OF assms(1), of P srv args] assms(2) h
  obtain r' where r': "callTool P srv nm args =
             ((case transport P r' of
                 Return response \<Rightarrow> Return (success_result (number_to_string P) nm response)
               | Throw e \<Rightarrow> catch_block (number_to_string P) e), [r'])"
    by auto
  with assms(2) h have "r' = r" and reqs: "reqs = [r]" by auto
  with r' assms(2) h have out: "out = catch_block (number_to_string P) e" by simp
  show "reqs = [r]" by (rule reqs)
  show "case e of
          AxiosError msg resp \<Rightarrow>
            out = Return \<lparr>content =
              [\<lparr>type_field = ''text'',
                text_field = stringify (number_to_string P)
                  (JObj ((''error'',
                           (case resp of
                              None \<Rightarrow> JStr msg
                            | Some rs \<Rightarrow> if truthy_json (data rs) then data rs else JStr msg))
                         # (case resp of
                              None \<Rightarrow> []
                            | Some rs \<Rightarrow> [(''status'', JNum (of_int (status rs)))])))\<rparr>]\<rparr>
        | Error msg \<Rightarrow> out = Throw e
        | TypeError msg \<Rightarrow> out = Throw e"
    using out by (cases e) (simp_all add: error_result_text)
next
  fix e'
  assume "out = Throw e'"
  with assms(2) show "\<not> isAxiosError e'"
    using callTool_never_throws_axios by blast
next
  fix e' reqs'
  assume "switch_name P srv nm args = (Throw e', reqs') \<and> \<not> isAxiosError e'"
  with assms(2) show "out = Throw e'" and "reqs = reqs'"
    by (cases e'; simp add: callTool_def)+
next
  assume "args = None \<and> (nm \<in> set read_tools \<or> truthy_str (accessToken (config srv)))"
  with undefined_arguments_throw [OF assms(1), of srv P] assms(2)
  show "\<exists>msg. out = Throw (TypeError msg)" and "reqs = []" by auto
next
  fix a
  assume "args = Some a \<and> nm \<in> set read_tools \<and> \<not> read_arguments_convert nm a"
  with read_tool_throws [of nm a P srv] assms(2)
  show "\<exists>msg. out = Throw (TypeError msg)" and "reqs = []" by auto
qed

theorem transport_failure_becomes_envelope_witness:
  \<open>''get_listing'' \<in> set (map name getTools)
   \<and> callTool (failing not_found) server_without_token ''get_listing''
        (Some (map_of [(''listing_id'', JNum 999)])) =
       (Return \<lparr>content = [\<lparr>type_field = ''text'', text_field = text_lines
          [''{'',
           ''  "error": {'',
           ''    "error": "Resource not found"'',
           ''  },'',
           ''  "status": 404'',
           ''}'']\<rparr>]\<rparr>,
        [\<lparr>http_method = GET, baseURL = ''https://openapi.etsy.com/v3'',
          url = ''/application/listings/999'', headers = [(''x-api-key'', ''key'')],
          params = Some [], body = None\<rparr>])
   \<and> transport (failing not_found)
         \<lparr>http_method = GET, baseURL = ''https://openapi.etsy.com/v3'',
          url = ''/application/listings/999'', headers = [(''x-api-key'', ''key'')],
          params = Some [], body = None\<rparr> = Throw not_found
   \<and> callTool (failing not_found) server_without_token ''get_listing'' None =
       (Throw (TypeError ''Cannot read properties of undefined (reading 'includes')''), [])
   \<and> callTool (failing not_found) server_without_token ''get_listing''
        (Some (map_of [(''listing_id'', JObj [(''toString'', JNum 1)])])) =
       (Throw (TypeError ''Cannot convert object to primitive value''), [])\<close>
proof -
  have h: "''get_listing'' \<in> set (map name getTools)"
    by (simp add: getTools_def)
  have e1: \<open>callTool (failing not_found) server_without_token ''get_listing''
        (Some (map_of [(''listing_id'', JNum 999)])) =
       (Return \<lparr>content = [\<lparr>type_field = ''text'', text_field = text_lines
          [''{'',
           ''  "error": {'',
           ''    "error": "Resource not found"'',
           ''  },'',
           ''  "status": 404'',
           ''}'']\<rparr>]\<rparr>,
        [\<lparr>http_method = GET, baseURL = ''https://openapi.etsy.com/v3'',
          url = ''/application/listings/999'', headers = [(''x-api-key'', ''key'')],
          params = Some [], body = None\<rparr>])\<close>
    by (simp add: callTool_def switch_name_def await_then_def request_to_def axios_request_def template.simps getListing_def error_result_def js_or_def example_defs printing_defs)
  have tr: "transport (failing not_found)
         \<lparr>http_method = GET, baseURL = ''https://openapi.etsy.com/v3'',
          url = ''/application/listings/999'', headers = [(''x-api-key'', ''key'')],
          params = Some [], body = None\<rparr> = Throw not_found"
    by (simp add: failing_def)
  have e2: "callTool (failing not_found) server_without_token ''get_listing'' None =
       (Throw (TypeError ''Cannot read properties of undefined (reading 'includes')''), [])"
    by (simp add: callTool_def switch_name_def getListing_def cannot_read_def)
  have e3: "callTool (failing not_found) server_without_token ''get_listing''
        (Some (map_of [(''listing_id'', JObj [(''toString'', JNum 1)])])) =
       (Throw (TypeError ''Cannot convert object to primitive value''), [])"
    by (simp add: callTool_def switch_name_def await_then_def request_to_def axios_request_def template.simps getListing_def conversion_error_def)
  note t = transport_failure_becomes_envelope [OF h e1]
    transport_failure_becomes_envelope [OF h e2]
    transport_failure_becomes_envelope [OF h e3]
  show ?thesis using t by - (intro conjI h e1 tr e2 e3)
qed

text \<open>
  C4. \<open>search_listings\<close> without \<open>limit\<close> and \<open>offset\<close> sends one GET whose query has
  \<open>limit\<close> 25 and \<open>offset\<close> 0. \<open>get_shop_listings\<close> without \<open>state\<close> sends, when the
  \<open>shop_id\<close> for its address can be converted to a string, one GET whose query has
  \<open>state\<close> active, with \<open>limit\<close> 25 and \<open>offset\<close> 0 where those are missing too; when
  the \<open>shop_id\<close> cannot be converted it throws and there is no outgoing query.
\<close>

theorem defaults_are_substituted:
  "(a ''limit'' = None \<and> a ''offset'' = None \<longrightarrow>
      (\<exists>r ps. snd (callTool P srv ''search_listings'' (Some a)) = [r]
         \<and> http_method r = GET \<and> params r = Some ps
         \<and> map_of ps ''limit'' = Some (Some (JNum 25))
         \<and> map_of ps ''offset'' = Some (Some (JNum 0))))
   \<and> (a ''state'' = None \<longrightarrow>
      (if converts_arg (a ''shop_id'')
       then \<exists>r ps. snd (callTool P srv ''get_shop_listings'' (Some a)) = [r]
         \<and> http_method r = GET \<and> params r = Some ps
         \<and> map_of ps ''state'' = Some (Some (JStr ''active''))
         \<and> (a ''limit'' = None \<longrightarrow> map_of ps ''limit'' = Some (Some (JNum 25)))
         \<and> (a ''offset'' = None \<longrightarrow> map_of ps ''offset'' = Some (Some (JNum 0)))
       else \<exists>msg. callTool P srv ''get_shop_listings'' (Some a) = (Throw (TypeError msg), [])))"
proof -
  have search: "a ''limit'' = None \<and> a ''offset'' = None \<longrightarrow>
      (\<exists>r ps. snd (callTool P srv ''search_listings'' (Some a)) = [r]
         \<and> http_method r = GET \<and> params r = Some ps
         \<and> map_of ps ''limit'' = Some (Some (JNum 25))
         \<and> map_of ps ''offset'' = Some (Some (JNum 0)))"
    by (simp add: request_log switch_name_def searchListings_def map_of_assign_if js_or_def)
  have sent: "\<exists>r ps. snd (callTool P srv ''get_shop_listings'' (Some a)) = [r]
         \<and> http_method r = GET \<and> params r = Some ps
         \<and> map_of ps ''state'' = Some (Some (JStr ''active''))
         \<and> (a ''limit'' = None \<longrightarrow> map_of ps ''limit'' = Some (Some (JNum 25)))
         \<and> (a ''offset'' = None \<longrightarrow> map_of ps ''offset'' = Some (Some (JNum 0)))"
    if "a ''state'' = None" "converts_arg (a ''shop_id'')"
    using that by (simp add: request_log switch_name_def getShopListings_def js_or_def)
  have thrown: "\<exists>msg. callTool P srv ''get_shop_listings'' (Some a) = (Throw (TypeError msg), [])"
    if "\<not> converts_arg (a ''shop_id'')"
    using that read_tool_throws [of "''get_shop_listings''" a P srv]
    by (simp add: read_tools_def read_arguments_convert_def)
  from search sent thrown show ?thesis by simp
qed

theorem defaults_are_substituted_witness:
  "map_of [(''keywords'', JStr ''mug''), (''shop_id'', JNum 7)] ''limit'' = None
   \<and> map_of [(''keywords'', JStr ''mug''), (''shop_id'', JNum 7)] ''offset'' = None
   \<and> map_of [(''keywords'', JStr ''mug''), (''shop_id'', JNum 7)] ''state'' = None
   \<and> converts_arg (map_of [(''keywords'', JStr ''mug''), (''shop_id'', JNum 7)] ''shop_id'')
   \<and> map (\<lambda>r. (http_method r, url r, params r))
        (snd (callTool (answering JNull) server_without_token ''search_listings''
           (Some (map_of [(''keywords'', JStr ''mug''), (''shop_id'', JNum 7)])))) =
       [(GET, ''/application/listings/active'',
         Some [(''keywords'', Some (JStr ''mug'')), (''limit'', Some (JNum 25)),
               (''offset'', Some (JNum 0))])]
   \<and> map (\<lambda>r. (http_method r, url r, params r))
        (snd (callTool (answering JNull) server_without_token ''get_shop_listings''
           (Some (map_of [(''keywords'', JStr ''mug''), (''shop_id'', JNum 7)])))) =
       [(GET, ''/application/shops/7/listings'',
         Some [(''limit'', Some (JNum 25)), (''offset'', Some (JNum 0)),
               (''state'', Some (JStr ''active''))])]
   \<and> callTool (answering JNull) server_without_token ''get_shop_listings''
        (Some (map_of [(''shop_id'', JObj [(''toString'', JNum 1)])])) =
       (Throw (TypeError ''Cannot convert object to primitive value''), [])"
  using defaults_are_substituted
    [of "map_of [(''keywords'', JStr ''mug''), (''shop_id'', JNum 7)]" "answering JNull"
        server_without_token]
    defaults_are_substituted
    [of "map_of [(''shop_id'', JObj [(''toString'', JNum 1)])]" "answering JNull"
        server_without_token]
  by (simp add: callTool_def switch_name_def await_then_def request_to_def axios_request_def template.simps searchListings_def getShopListings_def assign_if_def js_or_def
        converts_arg_def conversion_error_def example_defs print_integer_def decimal.simps)

text \<open>
  C5, as the claim states it, fails twice: \<open>update_listing\<close> with the price 0 sends a
  body without \<open>price\<close>, and \<open>search_listings\<close> without the optional \<open>limit\<close> sends
  \<open>limit\<close> all the same, with its default.
\<close>

theorem absent_optional_fields_counterexample:
  "map body
     (snd (callTool (answering JNull) server_with_token ''update_listing''
        (Some (map_of [(''shop_id'', JNum 7), (''listing_id'', JNum 12), (''price'', JNum 0)])))) =
     [Some []]
   \<and> name (hd getTools) = ''search_listings''
   \<and> required (hd getTools) = [''keywords'']
   \<and> map_of [(''keywords'', JStr ''mug'')] ''limit'' = None
   \<and> map params
       (snd (callTool (answering JNull) server_without_token ''search_listings''
          (Some (map_of [(''keywords'', JStr ''mug'')])))) =
     [Some [(''keywords'', Some (JStr ''mug'')), (''limit'', Some (JNum 25)),
            (''offset'', Some (JNum 0))]]"
  by (simp add: callTool_def switch_name_def await_then_def request_to_def axios_request_def template.simps updateListing_def searchListings_def assign_if_def
        js_or_def getTools_def example_defs print_integer_def decimal.simps)

text \<open>
  C5, amended. On a server with an access token, \<open>update_listing\<close> whose argument bag has
  a truthy \<open>price\<close> and none of \<open>title\<close>, \<open>description\<close>, \<open>quantity\<close>, \<open>tags\<close> and
  \<open>shop_section_id\<close> sends, when \<open>shop_id\<close> and \<open>listing_id\<close> can be converted to
  strings for the address, one PATCH whose body is exactly the property \<open>price\<close> with the
  value supplied; when one of the two cannot be converted it throws and sends nothing.
  For every tool of the registry, a property that is not required, declares no default
  and is missing from the argument bag is no field of any request the call sends, neither
  in the query nor in the body.
\<close>

theorem absent_optional_fields_are_not_sent:
  "(truthy_str (accessToken (config srv)) \<and> truthy (a ''price'')
      \<and> a ''title'' = None \<and> a ''description'' = None \<and> a ''quantity'' = None
      \<and> a ''tags'' = None \<and> a ''shop_section_id'' = None \<longrightarrow>
      (if converts_arg (a ''shop_id'') \<and> converts_arg (a ''listing_id'')
       then \<exists>r. snd (callTool P srv ''update_listing'' (Some a)) = [r]
         \<and> http_method r = PATCH \<and> params r = None
         \<and> body r = Some [(''price'', a ''price'')]
       else \<exists>msg. callTool P srv ''update_listing'' (Some a) = (Throw (TypeError msg), [])))
   \<and> (\<forall>t \<in> set getTools. \<forall>f \<in> set (properties t).
        f \<notin> set (required t) \<and> f \<notin> fst ` set (defaults t) \<and> a f = None \<longrightarrow>
        (\<forall>r \<in> set (snd (callTool P srv (name t) (Some a))). f \<notin> set (request_fields r)))"
proof (intro conjI impI ballI)
  assume h: "truthy_str (accessToken (config srv)) \<and> truthy (a ''price'')
      \<and> a ''title'' = None \<and> a ''description'' = None \<and> a ''quantity'' = None
      \<and> a ''tags'' = None \<and> a ''shop_section_id'' = None"
  then have "truthy_str (accessToken (config srv))" by simp
  from updateListing_log [OF this, of a P] h
  show "if converts_arg (a ''shop_id'') \<and> converts_arg (a ''listing_id'')
       then \<exists>r. snd (callTool P srv ''update_listing'' (Some a)) = [r]
         \<and> http_method r = PATCH \<and> params r = None
         \<and> body r = Some [(''price'', a ''price'')]
       else \<exists>msg. callTool P srv ''update_listing'' (Some a) = (Throw (TypeError msg), [])"
    by (auto simp add: assign_if_def conversion_error_def split: if_splits)
next
  fix t f r
  assume t: "t \<in> set getTools" and f: "f \<in> set (properties t)"
    and opt: "f \<notin> set (required t) \<and> f \<notin> fst ` set (defaults t) \<and> a f = None"
    and r: "r \<in> set (snd (callTool P srv (name t) (Some a)))"
  show "f \<notin> set (request_fields r)"
  proof
    assume "f \<in> set (request_fields r)"
    from sent_field [OF t r this] opt have "f = ''image''" by simp
    with f image_is_no_property [OF t] show False by simp
  qed
qed

theorem absent_optional_fields_are_not_sent_witness:
  "truthy_str (accessToken (config server_with_token))
   \<and> truthy (map_of [(''shop_id'', JNum 7), (''listing_id'', JNum 12), (''price'', JNum 19.99)] ''price'')
   \<and> converts_arg (map_of [(''shop_id'', JNum 7), (''listing_id'', JNum 12), (''price'', JNum 19.99)] ''shop_id'')
   \<and> converts_arg (map_of [(''shop_id'', JNum 7), (''listing_id'', JNum 12), (''price'', JNum 19.99)] ''listing_id'')
   \<and> map (\<lambda>r. (http_method r, url r, params r, body r))
        (snd (callTool (answering JNull) server_with_token ''update_listing''
          (Some (map_of [(''shop_id'', JNum 7), (''listing_id'', JNum 12), (''price'', JNum 19.99)])))) =
       [(PATCH, ''/application/shops/7/listings/12'', None, Some [(''price'', Some (JNum 19.99))])]
   \<and> map request_fields
        (snd (callTool (answering JNull) server_with_token ''find_shops''
          (Some (map_of [(''shop_id'', JNum 7), (''listing_id'', JNum 12), (''price'', JNum 19.99)])))) =
       [[''limit'', ''offset'']]
   \<and> callTool (answering JNull) server_with_token ''update_listing''
        (Some (map_of [(''shop_id'', JObj [(''toString'', JNum 1)]), (''listing_id'', JNum 12),
                       (''price'', JNum 5)])) =
       (Throw (TypeError ''Cannot convert object to primitive value''), [])"
  using absent_optional_fields_are_not_sent
    [of server_with_token
        "map_of [(''shop_id'', JNum 7), (''listing_id'', JNum 12), (''price'', JNum 19.99)]"
        "answering JNull"]
    absent_optional_fields_are_not_sent
    [of server_with_token
        "map_of [(''shop_id'', JObj [(''toString'', JNum 1)]), (''listing_id'', JNum 12),
                 (''price'', JNum 5)]"
        "answering JNull"]
  by (simp add: callTool_def switch_name_def await_then_def request_to_def axios_request_def template.simps updateListing_def findShops_def assign_if_def request_fields_def js_or_def
        converts_arg_def conversion_error_def example_defs print_integer_def decimal.simps)

text \<open>
  C6. \<open>createServer\<close> takes each credential from the configuration object when it
  holds a non-empty value there and from the environment variable otherwise. With no
  non-empty key in either place it throws and yields no server; a server it yields has
  a non-empty key.
\<close>

theorem createServer_resolves_credentials:
  "(truthy_str (map_option apiKey cfg) \<longrightarrow>
      (\<exists>srv. createServer cfg env = Return srv
         \<and> Some (apiKey (config srv)) = map_option apiKey cfg))
   \<and> (\<not> truthy_str (map_option apiKey cfg) \<and> truthy_str (env ''ETSY_API_KEY'') \<longrightarrow>
      (\<exists>srv. createServer cfg env = Return srv
         \<and> Some (apiKey (config srv)) = env ''ETSY_API_KEY''))
   \<and> (\<not> truthy_str (map_option apiKey cfg) \<and> \<not> truthy_str (env ''ETSY_API_KEY'') \<longrightarrow>
      createServer cfg env =
        Throw (Error ''ETSY_API_KEY is required. Provide it via config or environment variable.'')
      \<and> (\<nexists>srv. createServer cfg env = Return srv))
   \<and> (\<forall>srv. createServer cfg env = Return srv \<longrightarrow>
        apiKey (config srv) \<noteq> []
        \<and> srv = new_EtsyMCPServer (config srv)
        \<and> shopId (config srv) =
            (if truthy_str (Option.bind cfg shopId) then Option.bind cfg shopId
             else env ''ETSY_SHOP_ID'')
        \<and> accessToken (config srv) =
            (if truthy_str (Option.bind cfg accessToken) then Option.bind cfg accessToken
             else env ''ETSY_ACCESS_TOKEN''))"
proof -
  have key: "(case str_or (str_or (map_option apiKey cfg) (env ''ETSY_API_KEY'')) (Some [])
                of Some k \<Rightarrow> k | None \<Rightarrow> []) =
             (if truthy_str (map_option apiKey cfg) then the (map_option apiKey cfg)
              else if truthy_str (env ''ETSY_API_KEY'') then the (env ''ETSY_API_KEY'') else [])"
    by (cases cfg; cases "env ''ETSY_API_KEY''") (auto simp add: str_or_def)
  have bind: "(case cfg of None \<Rightarrow> None | Some c \<Rightarrow> f c) = Option.bind cfg f" for f :: "EtsyConfig \<Rightarrow> string option"
    by (cases cfg) simp_all
  show ?thesis
    unfolding createServer_def Let_def key bind
    by (cases cfg; cases "env ''ETSY_API_KEY''")
       (auto simp add: str_or_def new_EtsyMCPServer_def)
qed

theorem createServer_resolves_credentials_witness:
  "createServer (Some \<lparr>apiKey = ''from-config'', shopId = None, accessToken = Some []\<rparr>)
      (map_of [(''ETSY_API_KEY'', ''from-env''), (''ETSY_ACCESS_TOKEN'', ''env-token'')]) =
     Return (new_EtsyMCPServer
       \<lparr>apiKey = ''from-config'', shopId = None, accessToken = Some ''env-token''\<rparr>)
   \<and> createServer None (map_of [(''ETSY_API_KEY'', ''from-env'')]) =
     Return (new_EtsyMCPServer \<lparr>apiKey = ''from-env'', shopId = None, accessToken = None\<rparr>)
   \<and> createServer (Some \<lparr>apiKey = [], shopId = Some ''7'', accessToken = Some ''token''\<rparr>)
      (map_of [(''ETSY_API_KEY'', [])]) =
     Throw (Error ''ETSY_API_KEY is required. Provide it via config or environment variable.'')
   \<and> createServer None (map_of []) =
     Throw (Error ''ETSY_API_KEY is required. Provide it via config or environment variable.'')"
  using createServer_resolves_credentials
    [of "Some \<lparr>apiKey = ''from-config'', shopId = None, accessToken = Some []\<rparr>"
        "map_of [(''ETSY_API_KEY'', ''from-env''), (''ETSY_ACCESS_TOKEN'', ''env-token'')]"]
    createServer_resolves_credentials [of None "map_of [(''ETSY_API_KEY'', ''from-env'')]"]
    createServer_resolves_credentials [of None "map_of []"]
  by (simp add: createServer_def str_or_def)

text \<open>
  C7, as the claim states it, fails: \<open>get_listing\<close> with \<open>includes\<close> holding a string
  throws a \<open>TypeError\<close> before any request, and so does \<open>get_shop\<close> with a
  \<open>shop_id\<close> that is an object with a member named \<open>toString\<close>; these reading tools
  send no request.
\<close>

theorem read_tool_without_request_counterexample:
  "''get_listing'' \<in> set read_tools
   \<and> callTool (answering JNull) server_without_token ''get_listing''
        (Some (map_of [(''listing_id'', JNum 12), (''includes'', JStr ''Images'')])) =
       (Throw (TypeError ''args.includes?.join is not a function''), [])
   \<and> ''get_shop'' \<in> set read_tools
   \<and> callTool (answering JNull) server_without_token ''get_shop''
        (Some (map_of [(''shop_id'', JObj [(''toString'', JNum 1)])])) =
       (Throw (TypeError ''Cannot convert object to primitive value''), [])"
  by (simp add: read_tools_def callTool_def switch_name_def await_then_def request_to_def axios_request_def template.simps getListing_def getShop_def conversion_error_def)

text \<open>
  C7, amended. A reading tool called with an argument bag sends exactly one request, on a
  server with an access token and on one without, when the arguments its handler converts
  can be converted: the \<open>listing_id\<close> or \<open>shop_id\<close> of the address is no object with a
  member of its own named \<open>toString\<close> and no array holding one, and for \<open>get_listing\<close>
  \<open>includes\<close> is missing, null or an array of values that can be converted. On every
  other argument bag the call throws a \<open>TypeError\<close> and sends nothing.
\<close>

theorem read_tools_send_one_request:
  assumes "nm \<in> set read_tools"
  shows "if read_arguments_convert nm a
         then length (snd (callTool P srv nm (Some a))) = 1
         else \<exists>msg. callTool P srv nm (Some a) = (Throw (TypeError msg), [])"
  using read_tool_sends [OF assms, of a P srv] read_tool_throws [OF assms, of a P srv]
  by simp

theorem read_tools_send_one_request_witness:
  "''get_listing'' \<in> set read_tools
   \<and> read_arguments_convert ''get_listing''
        (map_of [(''listing_id'', JNum 12), (''includes'', JArr [JStr ''Images'', JStr ''Shop''])])
   \<and> map (\<lambda>r. (http_method r, url r, params r, headers r))
        (snd (callTool (answering JNull) server_without_token ''get_listing''
          (Some (map_of [(''listing_id'', JNum 12), (''includes'', JArr [JStr ''Images'', JStr ''Shop''])])))) =
       [(GET, ''/application/listings/12'', Some [(''includes'', Some (JStr ''Images,Shop''))],
         [(''x-api-key'', ''key'')])]
   \<and> map (\<lambda>r. (http_method r, url r, params r, headers r))
        (snd (callTool (answering JNull) server_with_token ''get_listing''
          (Some (map_of [(''listing_id'', JNum 12), (''includes'', JArr [JStr ''Images'', JStr ''Shop''])])))) =
       [(GET, ''/application/listings/12'', Some [(''includes'', Some (JStr ''Images,Shop''))],
         [(''x-api-key'', ''key''), (''Authorization'', ''Bearer token'')])]
   \<and> \<not> read_arguments_convert ''get_listing''
        (map_of [(''listing_id'', JNum 12),
                 (''includes'', JArr [JStr ''Images'', JObj [(''toString'', JNum 1)]])])
   \<and> callTool (answering JNull) server_without_token ''get_listing''
        (Some (map_of [(''listing_id'', JNum 12),
                       (''includes'', JArr [JStr ''Images'', JObj [(''toString'', JNum 1)]])])) =
       (Throw (TypeError ''Cannot convert object to primitive value''), [])
   \<and> callTool (answering JNull) server_without_token ''get_shop''
        (Some (map_of [(''shop_id'', JObj [(''toString'', JNum 1)])])) =
       (Throw (TypeError ''Cannot convert object to primitive value''), [])"
  using read_tools_send_one_request
    [of "''get_listing''"
        "map_of [(''listing_id'', JNum 12), (''includes'', JArr [JStr ''Images'', JStr ''Shop''])]"
        "answering JNull" server_without_token]
    read_tools_send_one_request
    [of "''get_listing''"
        "map_of [(''listing_id'', JNum 12),
                 (''includes'', JArr [JStr ''Images'', JObj [(''toString'', JNum 1)]])]"
        "answering JNull" server_without_token]
  by (simp add: read_tools_def read_arguments_convert_def joinable_def converts_arg_def callTool_def switch_name_def await_then_def request_to_def axios_request_def template.simps
        getListing_def getShop_def join_def conversion_error_def example_defs
        print_integer_def decimal.simps)

text \<open>
  C8. Whatever a registered tool returns without throwing is an envelope with exactly one
  content item, of type text, whose text is the serialisation of a JSON value, and the
  value is one of three. It is the object with the single property \<open>error\<close> that asks for
  the access token, when a shop management tool is called without a token and nothing is
  sent. It is the success body, when the one request is answered: the data of the response,
  or for the two deleting tools their constant object. It is the object with \<open>error\<close>
  and, when there is a response, \<open>status\<close>, when the one request is rejected with the
  error of the HTTP client.
\<close>

theorem every_result_is_one_text_item:
  assumes "nm \<in> set (map name getTools)"
    and "callTool P srv nm args = (Return env, reqs)"
  shows "\<exists>v. env = \<lparr>content =
            [\<lparr>type_field = ''text'', text_field = stringify (number_to_string P) v\<rparr>]\<rparr>
          \<and> ((reqs = [] \<and> nm \<in> set shop_management_tools
                \<and> \<not> truthy_str (accessToken (config srv))
                \<and> v = JObj [(''error'', JStr ''OAuth access token required. Set ETSY_ACCESS_TOKEN environment variable.'')])
              \<or> (\<exists>r response. reqs = [r] \<and> transport P r = Return response
                    \<and> v = (if nm = ''delete_listing''
                           then JObj [(''success'', JBool True),
                                      (''message'', JStr ''Listing deleted successfully'')]
                           else if nm = ''delete_shop_section''
                           then JObj [(''success'', JBool True),
                                      (''message'', JStr ''Shop section deleted successfully'')]
                           else data response))
              \<or> (\<exists>r msg resp. reqs = [r] \<and> transport P r = Throw (AxiosError msg resp)
                    \<and> v = JObj ((''error'',
                                  (case resp of
                                     None \<Rightarrow> JStr msg
                                   | Some rs \<Rightarrow> if truthy_json (data rs) then data rs else JStr msg))
                                # (case resp of
                                     None \<Rightarrow> []
                                   | Some rs \<Rightarrow> [(''status'', JNum (of_int (status rs)))]))))"
proof -
  let ?ns = "number_to_string P"
  let ?env = "\<lambda>v. \<lparr>content = [\<lparr>type_field = ''text'', text_field = stringify ?ns v\<rparr>]\<rparr>"
  have tok: "token_required ?ns = ?env (JObj [(''error'', JStr ''OAuth access token required. Set ETSY_ACCESS_TOKEN environment variable.'')])"
    by (simp add: token_required_def stringify_literal_def text_result_def)
  have suc: "success_result ?ns nm response =
      ?env (if nm = ''delete_listing''
            then JObj [(''success'', JBool True),
                       (''message'', JStr ''Listing deleted successfully'')]
            else if nm = ''delete_shop_section''
            then JObj [(''success'', JBool True),
                       (''message'', JStr ''Shop section deleted successfully'')]
            else data response)" for response
    by (simp add: success_result_def text_result_def)
  from callTool_cases [OF assms(1), of P srv args]
  consider (refused) "callTool P srv nm args = (Return (token_required ?ns), [])"
      "nm \<in> set shop_management_tools" "\<not> truthy_str (accessToken (config srv))"
    | (thrown) msg where "callTool P srv nm args = (Throw (TypeError msg), [])"
    | (sent) r where "callTool P srv nm args =
             ((case transport P r of
                 Return response \<Rightarrow> Return (success_result ?ns nm response)
               | Throw e \<Rightarrow> catch_block ?ns e), [r])"
    by blast
  then show ?thesis
  proof cases
    case refused
    with assms(2) tok have "env = ?env (JObj [(''error'', JStr ''OAuth access token required. Set ETSY_ACCESS_TOKEN environment variable.'')])" "reqs = []"
      by simp_all
    with refused(2,3) show ?thesis by blast
  next
    case thrown
    with assms(2) show ?thesis by simp
  next
    case sent
    show ?thesis
    proof (cases "transport P r")
      case (Return response)
      with sent assms(2) have "env = success_result ?ns nm response" "reqs = [r]" by simp_all
      with suc [of response] Return show ?thesis by blast
    next
      case (Throw e)
      with sent assms(2) have c: "catch_block ?ns e = Return env" and reqs: "reqs = [r]"
        by simp_all
      then obtain msg resp where e: "e = AxiosError msg resp" and
        env: "env = error_result ?ns msg resp"
        by (cases e) auto
      from env have "env = ?env (JObj ((''error'',
                                  (case resp of
                                     None \<Rightarrow> JStr msg
                                   | Some rs \<Rightarrow> if truthy_json (data rs) then data rs else JStr msg))
                                # (case resp of
                                     None \<Rightarrow> []
                                   | Some rs \<Rightarrow> [(''status'', JNum (of_int (status rs)))])))"
        by (simp add: error_result_text)
      with reqs Throw e show ?thesis by blast
    qed
  qed
qed

theorem every_result_is_one_text_item_witness:
  \<open>''search_listings'' \<in> set (map name getTools)
   \<and> callTool (answering (JObj [(''count'', JNum 1), (''results'', JArr [JObj [(''listing_id'', JNum 1)]])]))
        server_without_token ''search_listings''
        (Some (map_of [(''keywords'', JStr ''handmade jewelry''), (''limit'', JNum 10)])) =
       (Return \<lparr>content = [\<lparr>type_field = ''text'', text_field = text_lines
          [''{'',
           ''  "count": 1,'',
           ''  "results": ['',
           ''    {'',
           ''      "listing_id": 1'',
           ''    }'',
           ''  ]'',
           ''}'']\<rparr>]\<rparr>,
        [\<lparr>http_method = GET, baseURL = ''https://openapi.etsy.com/v3'',
          url = ''/application/listings/active'', headers = [(''x-api-key'', ''key'')],
          params = Some [(''keywords'', Some (JStr ''handmade jewelry'')),
                         (''limit'', Some (JNum 10)), (''offset'', Some (JNum 0))],
          body = None\<rparr>])
   \<and> transport
        (answering (JObj [(''count'', JNum 1), (''results'', JArr [JObj [(''listing_id'', JNum 1)]])]))
        \<lparr>http_method = GET, baseURL = ''https://openapi.etsy.com/v3'',
          url = ''/application/listings/active'', headers = [(''x-api-key'', ''key'')],
          params = Some [(''keywords'', Some (JStr ''handmade jewelry'')),
                         (''limit'', Some (JNum 10)), (''offset'', Some (JNum 0))],
          body = None\<rparr> =
       Return \<lparr>data = JObj [(''count'', JNum 1), (''results'', JArr [JObj [(''listing_id'', JNum 1)]])],
               status = 200\<rparr>\<close>
  using every_result_is_one_text_item
    [of "''search_listings''"
        "answering (JObj [(''count'', JNum 1), (''results'', JArr [JObj [(''listing_id'', JNum 1)]])])"
        server_without_token
        "Some (map_of [(''keywords'', JStr ''handmade jewelry''), (''limit'', JNum 10)])"]
  by (simp add: getTools_def callTool_def switch_name_def await_then_def request_to_def axios_request_def template.simps searchListings_def assign_if_def js_or_def example_defs printing_defs)



text \<open>
  C10. On a server with an access token, \<open>update_listing\<close> sends, when \<open>shop_id\<close> and
  \<open>listing_id\<close> can be converted to strings for the address, one PATCH whose body has
  each of \<open>title\<close>, \<open>description\<close>, \<open>price\<close>, \<open>quantity\<close> and \<open>tags\<close> exactly when the
  argument is truthy, so a supplied falsy value such as 0 or the empty string is left out;
  \<open>shop_section_id\<close> is in the body whenever it is supplied, also when it is 0.
  \<open>update_shop\<close> sends, when \<open>shop_id\<close> can be converted, one PUT whose body has each of
  \<open>title\<close>, \<open>announcement\<close>, \<open>sale_message\<close> and \<open>policy_welcome\<close> exactly when the
  argument is truthy. When an identifier cannot be converted the call throws and there is
  no outgoing body.
\<close>

theorem falsy_fields_are_omitted:
  assumes "truthy_str (accessToken (config srv))"
  shows "(if converts_arg (a ''shop_id'') \<and> converts_arg (a ''listing_id'')
          then \<exists>r b. snd (callTool P srv ''update_listing'' (Some a)) = [r]
            \<and> http_method r = PATCH \<and> body r = Some b
            \<and> (\<forall>k \<in> {''title'', ''description'', ''price'', ''quantity'', ''tags''}.
                  if truthy (a k) then map_of b k = Some (a k) else k \<notin> fst ` set b)
            \<and> (case a ''shop_section_id'' of
                  None \<Rightarrow> ''shop_section_id'' \<notin> fst ` set b
                | Some v \<Rightarrow> map_of b ''shop_section_id'' = Some (Some v))
          else \<exists>msg. callTool P srv ''update_listing'' (Some a) = (Throw (TypeError msg), []))
       \<and> (if converts_arg (a ''shop_id'')
          then \<exists>r b. snd (callTool P srv ''update_shop'' (Some a)) = [r]
            \<and> http_method r = PUT \<and> body r = Some b
            \<and> (\<forall>k \<in> {''title'', ''announcement'', ''sale_message'', ''policy_welcome''}.
                  if truthy (a k) then map_of b k = Some (a k) else k \<notin> fst ` set b)
          else \<exists>msg. callTool P srv ''update_shop'' (Some a) = (Throw (TypeError msg), []))"
proof -
  let ?b = "assign_if (a ''shop_section_id'' \<noteq> None)
                  (assign_if (truthy (a ''tags''))
                    (assign_if (truthy (a ''quantity''))
                      (assign_if (truthy (a ''price''))
                        (assign_if (truthy (a ''description''))
                          (assign_if (truthy (a ''title'')) [] ''title'' (a ''title''))
                          ''description'' (a ''description''))
                        ''price'' (a ''price''))
                      ''quantity'' (a ''quantity''))
                    ''tags'' (a ''tags''))
                  ''shop_section_id'' (a ''shop_section_id'')"
  let ?b' = "assign_if (truthy (a ''policy_welcome''))
                  (assign_if (truthy (a ''sale_message''))
                    (assign_if (truthy (a ''announcement''))
                      (assign_if (truthy (a ''title'')) [] ''title'' (a ''title''))
                      ''announcement'' (a ''announcement''))
                    ''sale_message'' (a ''sale_message''))
                  ''policy_welcome'' (a ''policy_welcome'')"
  have l1: "\<forall>k \<in> {''title'', ''description'', ''price'', ''quantity'', ''tags''}.
                  if truthy (a k) then map_of ?b k = Some (a k) else k \<notin> fst ` set ?b"
    by (simp add: key_assign_if map_of_assign_if)
  have l2: "case a ''shop_section_id'' of
                  None \<Rightarrow> ''shop_section_id'' \<notin> fst ` set ?b
                | Some v \<Rightarrow> map_of ?b ''shop_section_id'' = Some (Some v)"
    by (simp add: key_assign_if map_of_assign_if split: option.splits)
  have s1: "\<forall>k \<in> {''title'', ''announcement'', ''sale_message'', ''policy_welcome''}.
                  if truthy (a k) then map_of ?b' k = Some (a k) else k \<notin> fst ` set ?b'"
    by (simp add: key_assign_if map_of_assign_if)
  have listing: "if converts_arg (a ''shop_id'') \<and> converts_arg (a ''listing_id'')
          then \<exists>r b. snd (callTool P srv ''update_listing'' (Some a)) = [r]
            \<and> http_method r = PATCH \<and> body r = Some b
            \<and> (\<forall>k \<in> {''title'', ''description'', ''price'', ''quantity'', ''tags''}.
                  if truthy (a k) then map_of b k = Some (a k) else k \<notin> fst ` set b)
            \<and> (case a ''shop_section_id'' of
                  None \<Rightarrow> ''shop_section_id'' \<notin> fst ` set b
                | Some v \<Rightarrow> map_of b ''shop_section_id'' = Some (Some v))
          else \<exists>msg. callTool P srv ''update_listing'' (Some a) = (Throw (TypeError msg), [])"
  proof (cases "converts_arg (a ''shop_id'') \<and> converts_arg (a ''listing_id'')")
    case True
    with updateListing_log [OF assms, of a P] obtain r where r:
      "snd (callTool P srv ''update_listing'' (Some a)) = [r]" "http_method r = PATCH"
      "body r = Some ?b"
      by auto
    from r l1 l2 have "\<exists>r b. snd (callTool P srv ''update_listing'' (Some a)) = [r]
            \<and> http_method r = PATCH \<and> body r = Some b
            \<and> (\<forall>k \<in> {''title'', ''description'', ''price'', ''quantity'', ''tags''}.
                  if truthy (a k) then map_of b k = Some (a k) else k \<notin> fst ` set b)
            \<and> (case a ''shop_section_id'' of
                  None \<Rightarrow> ''shop_section_id'' \<notin> fst ` set b
                | Some v \<Rightarrow> map_of b ''shop_section_id'' = Some (Some v))"
      by blast
    with True show ?thesis by (simp only: if_P)
  next
    case False
    with updateListing_log [OF assms, of a P] show ?thesis
      by (auto simp add: conversion_error_def)
  qed
  have shop: "if converts_arg (a ''shop_id'')
          then \<exists>r b. snd (callTool P srv ''update_shop'' (Some a)) = [r]
            \<and> http_method r = PUT \<and> body r = Some b
            \<and> (\<forall>k \<in> {''title'', ''announcement'', ''sale_message'', ''policy_welcome''}.
                  if truthy (a k) then map_of b k = Some (a k) else k \<notin> fst ` set b)
          else \<exists>msg. callTool P srv ''update_shop'' (Some a) = (Throw (TypeError msg), [])"
  proof (cases "converts_arg (a ''shop_id'')")
    case True
    with updateShop_log [OF assms, of a P] obtain r where r:
      "snd (callTool P srv ''update_shop'' (Some a)) = [r]" "http_method r = PUT"
      "body r = Some ?b'"
      by auto
    from r s1 have "\<exists>r b. snd (callTool P srv ''update_shop'' (Some a)) = [r]
            \<and> http_method r = PUT \<and> body r = Some b
            \<and> (\<forall>k \<in> {''title'', ''announcement'', ''sale_message'', ''policy_welcome''}.
                  if truthy (a k) then map_of b k = Some (a k) else k \<notin> fst ` set b)"
      by blast
    with True show ?thesis by (simp only: if_P)
  next
    case False
    with updateShop_log [OF assms, of a P] show ?thesis
      by (auto simp add: conversion_error_def)
  qed
  from listing shop show ?thesis by (rule conjI)
qed

theorem falsy_fields_are_omitted_witness:
  "truthy_str (accessToken (config server_with_token))
   \<and> converts_arg (Some (JNum 7)) \<and> converts_arg (Some (JNum 12))
   \<and> map (\<lambda>r. (http_method r, url r, body r))
        (snd (callTool (answering JNull) server_with_token ''update_listing''
          (Some (map_of [(''shop_id'', JNum 7), (''listing_id'', JNum 12), (''title'', JStr []),
                         (''price'', JNum 0), (''quantity'', JNum 0), (''tags'', JArr []),
                         (''shop_section_id'', JNum 0)])))) =
       [(PATCH, ''/application/shops/7/listings/12'',
         Some [(''tags'', Some (JArr [])), (''shop_section_id'', Some (JNum 0))])]
   \<and> map (\<lambda>r. (http_method r, url r, body r))
        (snd (callTool (answering JNull) server_with_token ''update_shop''
          (Some (map_of [(''shop_id'', JNum 7), (''title'', JStr []),
                         (''announcement'', JStr ''Sale'')])))) =
       [(PUT, ''/application/shops/7'', Some [(''announcement'', Some (JStr ''Sale''))])]"
  using falsy_fields_are_omitted
    [where srv = server_with_token and P = "answering JNull"
        and a = "map_of [(''shop_id'', JNum 7), (''listing_id'', JNum 12), (''title'', JStr []),
                 (''price'', JNum 0), (''quantity'', JNum 0), (''tags'', JArr []),
                 (''shop_section_id'', JNum 0)]"]
  by (simp add: callTool_def switch_name_def await_then_def request_to_def axios_request_def template.simps updateListing_def updateShop_def assign_if_def converts_arg_def
        example_defs print_integer_def decimal.simps)

end
